theory Spec2Isabelle
  imports Main "HOL-Library.Multiset"
begin

section \<open>SQL values and three-valued logic\<close>

text \<open>
  The authorization rules of DisasterLink live in PostgreSQL: row-level-security policies and
  PL/pgSQL functions.  SQL booleans have three values; \<open>None\<close> is NULL.  A policy admits a
  row, and a PL/pgSQL \<open>IF\<close> takes its branch, only when the condition is TRUE.
\<close>

type_synonym uuid = nat
type_synonym timestamptz = nat
type_synonym jsonb = string
type_synonym sql_bool = "bool option"

definition sql_eq :: "'a option \<Rightarrow> 'a option \<Rightarrow> sql_bool" where
  "sql_eq a b = (case a of None \<Rightarrow> None | Some x \<Rightarrow> (case b of None \<Rightarrow> None | Some y \<Rightarrow> Some (x = y)))"

definition sql_neq :: "'a option \<Rightarrow> 'a option \<Rightarrow> sql_bool" where
  "sql_neq a b = (case a of None \<Rightarrow> None | Some x \<Rightarrow> (case b of None \<Rightarrow> None | Some y \<Rightarrow> Some (x \<noteq> y)))"

text \<open>\<open>a IN (v1, ..., vn)\<close> for a list of non-null literals.\<close>

definition sql_in :: "'a option \<Rightarrow> 'a list \<Rightarrow> sql_bool" where
  "sql_in a vs = (case a of None \<Rightarrow> None | Some x \<Rightarrow> Some (x \<in> set vs))"

definition sql_not :: "sql_bool \<Rightarrow> sql_bool" where
  "sql_not a = map_option Not a"

definition sql_and :: "sql_bool \<Rightarrow> sql_bool \<Rightarrow> sql_bool" where
  "sql_and a b =
     (if a = Some False \<or> b = Some False then Some False
      else if a = None \<or> b = None then None else Some True)"

definition sql_or :: "sql_bool \<Rightarrow> sql_bool \<Rightarrow> sql_bool" where
  "sql_or a b =
     (if a = Some True \<or> b = Some True then Some True
      else if a = None \<or> b = None then None else Some False)"

definition is_true :: "sql_bool \<Rightarrow> bool" where
  "is_true a = (a = Some True)"

text \<open>
  A database call either returns a value or raises (a constraint violation, or a scalar
  subquery with more than one row); a call that raises leaves the database as it was.
\<close>

datatype 'a rpc = Raised | Returned 'a

text \<open>A scalar subquery: no row is NULL, one row is its value, more rows raise.\<close>

definition scalar_subquery :: "'a option list \<Rightarrow> 'a option rpc" where
  "scalar_subquery rows =
     (case rows of [] \<Rightarrow> Returned None | [v] \<Rightarrow> Returned v | _ \<Rightarrow> Raised)"

section \<open>Strings\<close>

text \<open>
  A \<open>char\<close> stands for one code unit below 256.  JavaScript's \<open>trim\<close> and the regular
  expression class \<open>\s\<close> remove white space and line terminators; of those, tab, line feed,
  vertical tab, form feed, carriage return, space and no-break space lie below 256.
  PostgreSQL's \<open>TRIM(text)\<close> removes spaces only.
\<close>

definition js_whitespace :: "char \<Rightarrow> bool" where
  "js_whitespace ch =
     (ch \<in> {CHR 0x09, CHR 0x0A, CHR 0x0B, CHR 0x0C, CHR 0x0D, CHR 0x20, CHR 0xA0})"

definition js_trim :: "string \<Rightarrow> string" where
  "js_trim s = rev (dropWhile js_whitespace (rev (dropWhile js_whitespace s)))"

definition sql_trim :: "string \<Rightarrow> string" where
  "sql_trim s = rev (dropWhile (\<lambda>ch. ch = CHR 0x20) (rev (dropWhile (\<lambda>ch. ch = CHR 0x20) s)))"

text \<open>\<open>NULLIF(s, '')\<close>.\<close>

definition nullif_empty :: "string option \<Rightarrow> string option" where
  "nullif_empty s = (case s of None \<Rightarrow> None | Some t \<Rightarrow> (if t = [] then None else Some t))"

section \<open>Schema\<close>

datatype user_role =
  resident | lgu_responder | admin | super_admin | municipal_responder | barangay_responder

datatype report_status = pending | acknowledged | resolved

datatype request_status = rq_pending | rq_approved | rq_rejected

datatype BarangayStatusEnum =
  normal | in_need_of_resources | in_need_of_manpower | active_disaster

text \<open>Rows carry the columns that the rules below read or write.\<close>

record auth_user =
  u_id :: uuid
  u_email :: "string option"
  u_email_confirmed_at :: "timestamptz option"

record profile =
  pf_id :: uuid
  pf_role :: user_role
  pf_barangay_id :: "uuid option"
  pf_municipality_id :: "uuid option"
  pf_proof_of_employment_url :: "string option"

record municipality =
  mu_id :: uuid
  mu_name :: string

record barangay =
  b_id :: uuid
  b_municipality_id :: uuid
  b_name :: string
  b_boundary_geojson :: "jsonb option"
  b_boundary_approved_at :: "timestamptz option"

record boundary_request =
  rq_id :: uuid
  rq_requested_by :: uuid
  rq_municipality_id :: uuid
  rq_barangay_id :: "uuid option"
  rq_barangay_name :: string
  rq_boundary_geojson :: jsonb
  rq_contact_email :: "string option"
  rq_contact_phone :: "string option"
  rq_description :: "string option"
  rq_status :: request_status
  rq_reviewed_by :: "uuid option"
  rq_reviewed_at :: "timestamptz option"
  rq_rejection_reason :: "string option"

text \<open>
  Modelled from the spec: the table \<open>lgu_barangay_memberships\<close> is created by a migration that
  is not among the sources.  Its columns are those the functions below read and write
  (\<open>id\<close>, \<open>profile_id\<close>, \<open>barangay_id\<close>, \<open>is_creator\<close>, \<open>left_at\<close>, \<open>leave_reason\<close>) and the
  \<open>joinedAt\<close> of the spec's Affiliation Membership; no further constraint is assumed.
\<close>

record membership =
  m_id :: uuid
  m_profile_id :: uuid
  m_barangay_id :: uuid
  m_is_creator :: bool
  m_joined_at :: timestamptz
  m_left_at :: "timestamptz option"
  m_leave_reason :: "string option"

record report =
  r_id :: uuid
  r_reporter_id :: uuid
  r_barangay_id :: uuid
  r_status :: report_status

record status_update =
  su_id :: uuid
  su_barangay_id :: uuid
  su_updated_by :: uuid
  su_status :: BarangayStatusEnum
  su_notes :: "string option"
  su_description :: "string option"
  su_photo_urls :: "string list"
  su_created_at :: timestamptz

record assistance_offer =
  ao_id :: uuid
  ao_helping_barangay_id :: "uuid option"
  ao_helping_municipality_id :: "uuid option"
  ao_recipient_barangay_id :: uuid
  ao_status_update_id :: "uuid option"
  ao_description :: string
  ao_assistance_image_url :: "string option"
  ao_expected_arrival_at :: "string option"
  ao_delivered_at :: "timestamptz option"
  ao_created_by :: uuid

text \<open>
  A table is the list of its rows, in insertion order.  Stored rows are taken to satisfy the
  foreign keys of the schema; keys are checked where a call brings a value from outside.
\<close>

record db =
  users :: "auth_user list"
  profiles :: "profile list"
  municipalities :: "municipality list"
  barangays :: "barangay list"
  barangay_boundary_requests :: "boundary_request list"
  lgu_barangay_memberships :: "membership list"
  barangay_status_updates :: "status_update list"
  barangay_assistance_offers :: "assistance_offer list"

text \<open>
  What a call takes from outside the database: the session's user (\<open>auth.uid()\<close>, NULL for a
  guest), the clock, and the values \<open>gen_random_uuid()\<close> yields, numbered in call order.
\<close>

record ctx =
  auth_uid :: "uuid option"
  now :: timestamptz
  gen_random_uuid :: "nat \<Rightarrow> uuid"

text \<open>A nullable foreign key: NULL, or a key of the referenced table.\<close>

definition references :: "'a option \<Rightarrow> 'a list \<Rightarrow> bool" where
  "references v keys = (case v of None \<Rightarrow> True | Some k \<Rightarrow> k \<in> set keys)"

section \<open>Helpers for row-level security\<close>

definition current_profile :: "ctx \<Rightarrow> db \<Rightarrow> profile option" where
  "current_profile c d =
     (case auth_uid c of None \<Rightarrow> None | Some u \<Rightarrow> find (\<lambda>p. pf_id p = u) (profiles d))"

definition current_user_role :: "ctx \<Rightarrow> db \<Rightarrow> user_role option" where
  "current_user_role c d = map_option pf_role (current_profile c d)"

definition current_user_barangay_id :: "ctx \<Rightarrow> db \<Rightarrow> uuid option" where
  "current_user_barangay_id c d = Option.bind (current_profile c d) pf_barangay_id"

definition current_user_municipality_id :: "ctx \<Rightarrow> db \<Rightarrow> uuid option" where
  "current_user_municipality_id c d = Option.bind (current_profile c d) pf_municipality_id"

text \<open>The version of migration 20250232, which wraps the lookup in \<open>COALESCE(..., false)\<close>.\<close>

definition current_user_is_lgu_type :: "ctx \<Rightarrow> db \<Rightarrow> sql_bool" where
  "current_user_is_lgu_type c d =
     (case sql_in (current_user_role c d) [lgu_responder, municipal_responder, barangay_responder] of
        None \<Rightarrow> Some False | Some v \<Rightarrow> Some v)"

definition current_user_can_access_barangay :: "ctx \<Rightarrow> db \<Rightarrow> uuid option \<Rightarrow> sql_bool" where
  "current_user_can_access_barangay c d p_barangay_id =
     (case current_profile c d of
        None \<Rightarrow> Some False
      | Some v \<Rightarrow>
          if p_barangay_id = None then Some False
          else if pf_role v \<in> {admin, super_admin} then Some True
          else if pf_role v \<in> {lgu_responder, barangay_responder}
            then sql_eq (pf_barangay_id v) p_barangay_id
          else if pf_role v = municipal_responder
            then Some (\<exists>b \<in> set (barangays d).
                        Some (b_id b) = p_barangay_id \<and>
                        is_true (sql_eq (Some (b_municipality_id b)) (pf_municipality_id v)))
          else Some False)"

section \<open>Boundary requests: approve and reject\<close>

text \<open>
  \<open>approve_barangay_boundary_request\<close> of migration 20250230 and
  \<open>reject_barangay_boundary_request\<close> begin with the same block, \<open>can_review\<close>, which
  computes \<open>v_can_approve\<close> (\<open>v_can_reject\<close>).  Its municipal branch assigns a scalar
  subquery; \<open>IF NOT v_can_approve\<close> then returns only when that negation is TRUE.
  \<open>approve_effects\<close> are the three statements after the barangay has been updated or created.
\<close>

definition pending_request :: "uuid \<Rightarrow> boundary_request \<Rightarrow> bool" where
  "pending_request p_request_id q = (rq_id q = p_request_id \<and> rq_status q = rq_pending)"

definition can_review :: "ctx \<Rightarrow> db \<Rightarrow> uuid \<Rightarrow> sql_bool rpc" where
  "can_review c d p_request_id =
     (if is_true (sql_in (current_user_role c d) [admin, super_admin]) then Returned (Some True)
      else if is_true (sql_eq (current_user_role c d) (Some municipal_responder)) then
        scalar_subquery
          (map (\<lambda>q. sql_eq (Some (rq_municipality_id q)) (current_user_municipality_id c d))
               (filter (pending_request p_request_id) (barangay_boundary_requests d)))
      else Returned (Some False))"

definition approve_effects :: "ctx \<Rightarrow> db \<Rightarrow> uuid \<Rightarrow> boundary_request \<Rightarrow> uuid \<Rightarrow> db" where
  "approve_effects c d p_request_id v_req v_barangay_id =
     d\<lparr> profiles :=
          map (\<lambda>p. if pf_id p = rq_requested_by v_req
                    then p\<lparr> pf_barangay_id := Some v_barangay_id,
                            pf_municipality_id := Some (rq_municipality_id v_req) \<rparr>
                    else p) (profiles d),
        lgu_barangay_memberships :=
          lgu_barangay_memberships d @
            [\<lparr> m_id = gen_random_uuid c 1, m_profile_id = rq_requested_by v_req,
               m_barangay_id = v_barangay_id, m_is_creator = True, m_joined_at = now c,
               m_left_at = None, m_leave_reason = None \<rparr>],
        barangay_boundary_requests :=
          map (\<lambda>q. if rq_id q = p_request_id
                    then q\<lparr> rq_status := rq_approved, rq_reviewed_by := auth_uid c,
                            rq_reviewed_at := Some (now c) \<rparr>
                    else q) (barangay_boundary_requests d) \<rparr>"

definition approve_barangay_boundary_request :: "ctx \<Rightarrow> db \<Rightarrow> uuid \<Rightarrow> bool rpc \<times> db" where
  "approve_barangay_boundary_request c d p_request_id =
     (case can_review c d p_request_id of
        Raised \<Rightarrow> (Raised, d)
      | Returned v_can_approve \<Rightarrow>
          if is_true (sql_not v_can_approve) then (Returned False, d)
          else
            (case find (pending_request p_request_id) (barangay_boundary_requests d) of
               None \<Rightarrow> (Returned False, d)
             | Some v_req \<Rightarrow>
                 (case rq_barangay_id v_req of
                    Some bid \<Rightarrow>
                      (Returned True,
                       approve_effects c
                         (d\<lparr> barangays :=
                               map (\<lambda>b. if b_id b = bid
                                         then b\<lparr> b_boundary_geojson := Some (rq_boundary_geojson v_req),
                                                 b_boundary_approved_at := Some (now c) \<rparr>
                                         else b) (barangays d) \<rparr>)
                         p_request_id v_req bid)
                  | None \<Rightarrow>
                      if gen_random_uuid c 0 \<in> b_id ` set (barangays d) then (Raised, d)
                      else
                        (Returned True,
                         approve_effects c
                           (d\<lparr> barangays :=
                                 barangays d @
                                   [\<lparr> b_id = gen_random_uuid c 0,
                                      b_municipality_id = rq_municipality_id v_req,
                                      b_name = rq_barangay_name v_req,
                                      b_boundary_geojson = Some (rq_boundary_geojson v_req),
                                      b_boundary_approved_at = Some (now c) \<rparr>] \<rparr>)
                           p_request_id v_req (gen_random_uuid c 0)))))"

text \<open>
  \<open>reject_barangay_boundary_request\<close>; the stored reason is
  \<open>NULLIF(TRIM(COALESCE(p_rejection_reason, '')), '')\<close>.
\<close>

definition reject_barangay_boundary_request ::
  "ctx \<Rightarrow> db \<Rightarrow> uuid \<Rightarrow> string option \<Rightarrow> bool rpc \<times> db" where
  "reject_barangay_boundary_request c d p_request_id p_rejection_reason =
     (case can_review c d p_request_id of
        Raised \<Rightarrow> (Raised, d)
      | Returned v_can_reject \<Rightarrow>
          if is_true (sql_not v_can_reject) then (Returned False, d)
          else
            (case find (pending_request p_request_id) (barangay_boundary_requests d) of
               None \<Rightarrow> (Returned False, d)
             | Some v_req \<Rightarrow>
                 (Returned True,
                  d\<lparr> barangay_boundary_requests :=
                       map (\<lambda>q. if rq_id q = p_request_id
                                 then q\<lparr> rq_status := rq_rejected, rq_reviewed_by := auth_uid c,
                                         rq_reviewed_at := Some (now c),
                                         rq_rejection_reason :=
                                           nullif_empty (Some (sql_trim
                                             (case p_rejection_reason of None \<Rightarrow> [] | Some t \<Rightarrow> t))) \<rparr>
                                 else q) (barangay_boundary_requests d) \<rparr>)))"


section \<open>Affiliation lifecycle: join, leave, signup\<close>

definition open_memberships :: "db \<Rightarrow> uuid \<Rightarrow> membership list" where
  "open_memberships d x =
     filter (\<lambda>m. m_profile_id m = x \<and> m_left_at m = None) (lgu_barangay_memberships d)"

text \<open>
  \<open>join_barangay\<close> as redefined by migration 20250229.  A caller without a profile has a
  NULL role, for which \<open>NOT IN\<close> is NULL and the first \<open>IF\<close> does not return; the insert
  at the end then has no profile to refer to and raises (\<open>profile_id\<close> is taken to be
  NOT NULL and to reference \<open>profiles\<close>, like every other actor column of the schema).
\<close>

definition join_barangay :: "ctx \<Rightarrow> db \<Rightarrow> uuid \<Rightarrow> bool rpc \<times> db" where
  "join_barangay c d p_barangay_id =
     (if is_true (sql_not (sql_in (current_user_role c d)
                     [lgu_responder, municipal_responder, barangay_responder]))
        then (Returned False, d)
      else if (\<exists>m \<in> set (lgu_barangay_memberships d).
                 is_true (sql_eq (Some (m_profile_id m)) (auth_uid c)) \<and> m_left_at m = None)
        then (Returned False, d)
      else
        (case find (\<lambda>b. b_id b = p_barangay_id \<and> b_boundary_approved_at b \<noteq> None \<and>
                         b_boundary_geojson b \<noteq> None) (barangays d) of
           None \<Rightarrow> (Returned False, d)
         | Some v_barangay \<Rightarrow>
             (case current_profile c d of
                None \<Rightarrow> (Raised, d)
              | Some me \<Rightarrow>
                  (Returned True,
                   d\<lparr> profiles :=
                        map (\<lambda>p. if pf_id p = pf_id me
                                  then p\<lparr> pf_barangay_id := Some p_barangay_id,
                                          pf_municipality_id := Some (b_municipality_id v_barangay) \<rparr>
                                  else p) (profiles d),
                      lgu_barangay_memberships :=
                        lgu_barangay_memberships d @
                          [\<lparr> m_id = gen_random_uuid c 0, m_profile_id = pf_id me,
                             m_barangay_id = p_barangay_id, m_is_creator = False,
                             m_joined_at = now c, m_left_at = None,
                             m_leave_reason = None \<rparr>] \<rparr>))))"

text \<open>\<open>leave_barangay\<close>; \<open>SELECT ... INTO\<close> keeps the first open membership it finds.\<close>

definition leave_barangay :: "ctx \<Rightarrow> db \<Rightarrow> string \<Rightarrow> bool rpc \<times> db" where
  "leave_barangay c d p_reason =
     (if is_true (sql_not (sql_in (current_user_role c d)
                     [lgu_responder, municipal_responder, barangay_responder]))
        then (Returned False, d)
      else
        (case find (\<lambda>m. is_true (sql_eq (Some (m_profile_id m)) (auth_uid c)) \<and> m_left_at m = None)
                (lgu_barangay_memberships d) of
           None \<Rightarrow> (Returned False, d)
         | Some v_membership \<Rightarrow>
             (Returned True,
              d\<lparr> lgu_barangay_memberships :=
                   map (\<lambda>m. if m_id m = m_id v_membership
                             then m\<lparr> m_left_at := Some (now c),
                                     m_leave_reason := nullif_empty (Some (sql_trim p_reason)) \<rparr>
                             else m) (lgu_barangay_memberships d),
                 profiles :=
                   map (\<lambda>p. if Some (pf_id p) = auth_uid c
                             then p\<lparr> pf_barangay_id := None, pf_municipality_id := None \<rparr>
                             else p) (profiles d) \<rparr>)))"

text \<open>
  The signup metadata, each entry as the cast in \<open>handle_new_user\<close> sees it: absent, not
  castable to the target type (the cast raises and the handler's \<open>EXCEPTION\<close> block catches
  it), or a value.  For \<open>barangay_id\<close> the cast is applied to \<open>NULLIF(TRIM(...), '')\<close>.
\<close>

datatype 'a cast = Null | Invalid | Valid 'a

record raw_user_meta_data =
  meta_role :: "user_role cast"
  meta_municipality_id :: "uuid cast"
  meta_barangay_id :: "uuid cast"
  meta_proof_of_employment_url :: "string option"

text \<open>
  \<open>handle_new_user\<close> of migration 20250229, the trigger that runs after a row \<open>NEW\<close> has been
  inserted into \<open>auth.users\<close>.  When the trigger raises, the insert of the user is undone too.
\<close>

definition handle_new_user :: "ctx \<Rightarrow> db \<Rightarrow> auth_user \<Rightarrow> raw_user_meta_data \<Rightarrow> unit rpc \<times> db" where
  "handle_new_user c d NEW meta =
     (let r = (case meta_role meta of Valid x \<Rightarrow> x | _ \<Rightarrow> resident);
          v_municipality_id =
            (if r \<in> {municipal_responder, barangay_responder}
             then (case meta_municipality_id meta of Valid m \<Rightarrow> Some m | _ \<Rightarrow> None) else None);
          v_barangay_id =
            (if r \<in> {municipal_responder, barangay_responder} \<and> meta_municipality_id meta \<noteq> Invalid
             then (case meta_barangay_id meta of Valid b \<Rightarrow> Some b | _ \<Rightarrow> None) else None)
      in
        if u_id NEW \<in> pf_id ` set (profiles d) then (Raised, d)
        else if \<not> references v_municipality_id (map mu_id (municipalities d)) then (Raised, d)
        else if \<not> references v_barangay_id (map b_id (barangays d)) then (Raised, d)
        else
          (Returned (),
           d\<lparr> profiles :=
                profiles d @
                  [\<lparr> pf_id = u_id NEW, pf_role = r, pf_barangay_id = v_barangay_id,
                     pf_municipality_id = v_municipality_id,
                     pf_proof_of_employment_url =
                       nullif_empty (map_option sql_trim (meta_proof_of_employment_url meta)) \<rparr>],
              lgu_barangay_memberships :=
                (case v_barangay_id of
                   Some b \<Rightarrow>
                     if r = barangay_responder
                     then lgu_barangay_memberships d @
                            [\<lparr> m_id = gen_random_uuid c 0, m_profile_id = u_id NEW,
                               m_barangay_id = b, m_is_creator = False, m_joined_at = now c,
                               m_left_at = None, m_leave_reason = None \<rparr>]
                     else lgu_barangay_memberships d
                 | None \<Rightarrow> lgu_barangay_memberships d),
              users :=
                (if r \<in> {lgu_responder, municipal_responder, barangay_responder}
                 then map (\<lambda>u. if u_id u = u_id NEW
                                 then u\<lparr> u_email_confirmed_at := Some (now c) \<rparr> else u) (users d)
                 else users d) \<rparr>))"

definition on_auth_user_created :: "ctx \<Rightarrow> db \<Rightarrow> auth_user \<Rightarrow> raw_user_meta_data \<Rightarrow> unit rpc \<times> db" where
  "on_auth_user_created c d NEW meta =
     (case handle_new_user c (d\<lparr> users := users d @ [NEW] \<rparr>) NEW meta of
        (Raised, _) \<Rightarrow> (Raised, d)
      | (Returned u, d') \<Rightarrow> (Returned u, d'))"

section \<open>Login eligibility\<close>

text \<open>
  \<open>check_login_eligibility\<close>: the scalar subquery over \<open>auth.users JOIN profiles\<close>, wrapped in
  \<open>COALESCE(..., false)\<close>.
\<close>

definition check_login_eligibility :: "db \<Rightarrow> string \<Rightarrow> bool rpc" where
  "check_login_eligibility d check_email =
     (case scalar_subquery
        (concat (map (\<lambda>u. map (\<lambda>p. Some (pf_proof_of_employment_url p \<noteq> None \<and>
                                         u_email_confirmed_at u = None))
                          (filter (\<lambda>p. pf_id p = u_id u \<and>
                                       is_true (sql_eq (u_email u) (Some check_email)) \<and>
                                       pf_role p \<in> {lgu_responder, municipal_responder,
                                                    barangay_responder})
                                  (profiles d)))
                     (users d))) of
        Raised \<Rightarrow> Raised
      | Returned None \<Rightarrow> Returned False
      | Returned (Some v) \<Rightarrow> Returned v)"

text \<open>
  \<open>handleLogin\<close> of the login page, up to the point where it either stops with the
  proof-pending notice or goes on to \<open>signInWithPassword\<close>.  A failed pre-check is skipped.
\<close>

datatype login_step = FormInvalid | ProofPendingNotice | SignInWithPassword

definition handleLogin :: "db \<Rightarrow> bool \<Rightarrow> string \<Rightarrow> login_step" where
  "handleLogin d isFormValid email =
     (if \<not> isFormValid then FormInvalid
      else (case check_login_eligibility d (js_trim email) of
              Returned True \<Rightarrow> ProofPendingNotice
            | _ \<Rightarrow> SignInWithPassword))"

section \<open>Row-level security: reports, boundary requests, profiles\<close>

text \<open>
  The policies of a table are permissive: a row is readable when at least one \<open>SELECT\<close>
  policy evaluates to TRUE for it.  The five \<open>SELECT\<close> policies on \<open>reports\<close>, in migration
  order: own, LGU by barangay access (as replaced by 20250229), admin, verified, public.
\<close>

definition reports_select_own :: "ctx \<Rightarrow> db \<Rightarrow> report \<Rightarrow> sql_bool" where
  "reports_select_own c d r = sql_eq (Some (r_reporter_id r)) (auth_uid c)"

definition reports_select_barangay_lgu :: "ctx \<Rightarrow> db \<Rightarrow> report \<Rightarrow> sql_bool" where
  "reports_select_barangay_lgu c d r =
     sql_and (current_user_is_lgu_type c d)
             (current_user_can_access_barangay c d (Some (r_barangay_id r)))"

definition reports_select_admin :: "ctx \<Rightarrow> db \<Rightarrow> report \<Rightarrow> sql_bool" where
  "reports_select_admin c d r = sql_in (current_user_role c d) [admin, super_admin]"

definition reports_select_verified_any :: "ctx \<Rightarrow> db \<Rightarrow> report \<Rightarrow> sql_bool" where
  "reports_select_verified_any c d r = sql_in (Some (r_status r)) [acknowledged, resolved]"

definition reports_select_public :: "ctx \<Rightarrow> db \<Rightarrow> report \<Rightarrow> sql_bool" where
  "reports_select_public c d r = Some True"

definition reports_select :: "ctx \<Rightarrow> db \<Rightarrow> report \<Rightarrow> bool" where
  "reports_select c d r =
     (is_true (reports_select_own c d r) \<or> is_true (reports_select_barangay_lgu c d r) \<or>
      is_true (reports_select_admin c d r) \<or> is_true (reports_select_verified_any c d r) \<or>
      is_true (reports_select_public c d r))"

text \<open>The same table before the migration that added \<open>reports_select_public\<close>.\<close>

definition reports_select_before_public :: "ctx \<Rightarrow> db \<Rightarrow> report \<Rightarrow> bool" where
  "reports_select_before_public c d r =
     (is_true (reports_select_own c d r) \<or> is_true (reports_select_barangay_lgu c d r) \<or>
      is_true (reports_select_admin c d r) \<or> is_true (reports_select_verified_any c d r))"

text \<open>\<open>SELECT\<close> policies on \<open>barangay_boundary_requests\<close>: own, admin, municipal.\<close>

definition barangay_boundary_requests_select_own :: "ctx \<Rightarrow> db \<Rightarrow> boundary_request \<Rightarrow> sql_bool" where
  "barangay_boundary_requests_select_own c d q = sql_eq (Some (rq_requested_by q)) (auth_uid c)"

definition barangay_boundary_requests_select_admin :: "ctx \<Rightarrow> db \<Rightarrow> boundary_request \<Rightarrow> sql_bool" where
  "barangay_boundary_requests_select_admin c d q =
     sql_in (current_user_role c d) [admin, super_admin]"

definition barangay_boundary_requests_select_municipal ::
  "ctx \<Rightarrow> db \<Rightarrow> boundary_request \<Rightarrow> sql_bool" where
  "barangay_boundary_requests_select_municipal c d q =
     sql_and (sql_eq (current_user_role c d) (Some municipal_responder))
             (sql_eq (Some (rq_municipality_id q)) (current_user_municipality_id c d))"

definition barangay_boundary_requests_select :: "ctx \<Rightarrow> db \<Rightarrow> boundary_request \<Rightarrow> bool" where
  "barangay_boundary_requests_select c d q =
     (is_true (barangay_boundary_requests_select_own c d q) \<or>
      is_true (barangay_boundary_requests_select_admin c d q) \<or>
      is_true (barangay_boundary_requests_select_municipal c d q))"

text \<open>
  \<open>SELECT\<close> policies on \<open>profiles\<close>: own, same barangay or municipality (as replaced by
  20250234), admin.
\<close>

definition profiles_select_same_barangay_lgu :: "ctx \<Rightarrow> db \<Rightarrow> profile \<Rightarrow> sql_bool" where
  "profiles_select_same_barangay_lgu c d p =
     sql_or
       (sql_and (sql_in (current_user_role c d) [lgu_responder, barangay_responder])
          (sql_or (sql_eq (pf_barangay_id p) (current_user_barangay_id c d))
             (sql_and (Some (pf_barangay_id p = None))
                (sql_eq (pf_municipality_id p) (current_user_municipality_id c d)))))
       (sql_and (sql_eq (current_user_role c d) (Some municipal_responder))
          (sql_eq (pf_municipality_id p) (current_user_municipality_id c d)))"

definition profiles_select :: "ctx \<Rightarrow> db \<Rightarrow> profile \<Rightarrow> bool" where
  "profiles_select c d p =
     (is_true (sql_eq (auth_uid c) (Some (pf_id p))) \<or>
      is_true (profiles_select_same_barangay_lgu c d p) \<or>
      is_true (sql_in (current_user_role c d) [admin, super_admin]))"

text \<open>
  The readers of a pending report in the words of the specification: the reporter, a
  responder scoped to the report's barangay or to its municipality, and admins.
\<close>

definition spec_pending_report_reader :: "ctx \<Rightarrow> db \<Rightarrow> report \<Rightarrow> bool" where
  "spec_pending_report_reader c d r =
     (auth_uid c = Some (r_reporter_id r) \<or>
      (case current_profile c d of
         None \<Rightarrow> False
       | Some p \<Rightarrow>
           pf_role p \<in> {admin, super_admin} \<or>
           (pf_role p \<in> {lgu_responder, barangay_responder} \<and>
              pf_barangay_id p = Some (r_barangay_id r)) \<or>
           (pf_role p = municipal_responder \<and>
              (\<exists>b \<in> set (barangays d).
                 b_id b = r_barangay_id r \<and> pf_municipality_id p = Some (b_municipality_id b)))))"


section \<open>Barangay status service\<close>

definition status_text :: "BarangayStatusEnum \<Rightarrow> string" where
  "status_text s =
     (case s of normal \<Rightarrow> ''normal'' | in_need_of_resources \<Rightarrow> ''in_need_of_resources''
              | in_need_of_manpower \<Rightarrow> ''in_need_of_manpower''
              | active_disaster \<Rightarrow> ''active_disaster'')"

definition NEED_STATUSES :: "BarangayStatusEnum list" where
  "NEED_STATUSES = [in_need_of_resources, in_need_of_manpower, active_disaster]"

definition LEGACY_NEED_STATUSES :: "string list" where
  "LEGACY_NEED_STATUSES = [''on_alert'', ''under_threat'']"

definition isNeedStatus :: "string \<Rightarrow> bool" where
  "isNeedStatus status =
     (status \<in> set (map status_text NEED_STATUSES) \<or> status \<in> set LEGACY_NEED_STATUSES)"

text \<open>\<open>INSERT\<close> policies on \<open>barangay_status_updates\<close> (LGU as replaced by 20250232, admin).\<close>

definition barangay_status_insert_lgu :: "ctx \<Rightarrow> db \<Rightarrow> status_update \<Rightarrow> sql_bool" where
  "barangay_status_insert_lgu c d s =
     sql_and (sql_and (current_user_is_lgu_type c d)
                (current_user_can_access_barangay c d (Some (su_barangay_id s))))
             (sql_eq (Some (su_updated_by s)) (auth_uid c))"

definition barangay_status_insert_admin :: "ctx \<Rightarrow> db \<Rightarrow> status_update \<Rightarrow> sql_bool" where
  "barangay_status_insert_admin c d s =
     sql_and (sql_in (current_user_role c d) [admin, super_admin])
             (sql_eq (Some (su_updated_by s)) (auth_uid c))"

text \<open>
  An insert through the client: the row-level-security check, then the keys (primary key,
  references to \<open>barangays\<close> and \<open>profiles\<close>).  The result is the error message, if any.
\<close>

definition insert_barangay_status_update :: "ctx \<Rightarrow> db \<Rightarrow> status_update \<Rightarrow> string option \<times> db" where
  "insert_barangay_status_update c d s =
     (if \<not> (is_true (barangay_status_insert_lgu c d s) \<or>
             is_true (barangay_status_insert_admin c d s))
        then (Some ''new row violates row-level security policy'', d)
      else if su_id s \<in> su_id ` set (barangay_status_updates d) \<or>
              su_barangay_id s \<notin> b_id ` set (barangays d) \<or>
              su_updated_by s \<notin> pf_id ` set (profiles d)
        then (Some ''violates key constraint'', d)
      else (None, d\<lparr> barangay_status_updates := barangay_status_updates d @ [s] \<rparr>))"

record status_options =
  so_notes :: "string option"
  so_description :: "string option"
  so_photoUrls :: "string list option"

text \<open>
  \<open>updateBarangayStatus\<close>.  \<open>options\<close> may be absent; \<open>!description\<close> holds for null and
  for the empty string; \<open>notes || null\<close> turns an empty note into null.  The row sent to the
  store is \<open>payload\<close>, completed by the column defaults \<open>id\<close> and \<open>created_at\<close>.
\<close>

definition updateBarangayStatus_payload :: "ctx \<Rightarrow> uuid \<Rightarrow> BarangayStatusEnum \<Rightarrow> uuid \<Rightarrow> status_options option \<Rightarrow> status_update" where
  "updateBarangayStatus_payload c barangayId status userId options =
     (let description = Option.bind options so_description;
          note = Option.bind options so_notes;
          photoUrls = (case Option.bind options so_photoUrls of None \<Rightarrow> [] | Some us \<Rightarrow> us)
      in
        \<lparr> su_id = gen_random_uuid c 0,
          su_barangay_id = barangayId,
          su_updated_by = userId,
          su_status = status,
          su_notes = nullif_empty note,
          su_description =
            (if isNeedStatus (status_text status) then map_option js_trim description else None),
          su_photo_urls =
            (if isNeedStatus (status_text status) \<and> length photoUrls > 0 then photoUrls else []),
          su_created_at = now c \<rparr>)"

definition updateBarangayStatus ::
  "ctx \<Rightarrow> db \<Rightarrow> uuid \<Rightarrow> BarangayStatusEnum \<Rightarrow> uuid \<Rightarrow> status_options option \<Rightarrow> string option \<times> db" where
  "updateBarangayStatus c d barangayId status userId options =
     (if isNeedStatus (status_text status) \<and>
         (case Option.bind options so_description of
            None \<Rightarrow> True
          | Some description \<Rightarrow> description = [] \<or> length (js_trim description) < 5)
      then (Some ''Please provide a short description (at least 5 characters).'', d)
      else insert_barangay_status_update c d
             (updateBarangayStatus_payload c barangayId status userId options))"

text \<open>
  \<open>fetchBarangaysWithStatus\<close> asks the store for the status rows of the approved barangays
  \<open>ORDER BY created_at DESC\<close>.  Any list with the selected rows in non-increasing order of
  \<open>created_at\<close> is an answer; rows with equal timestamps may come in either order.
\<close>

definition status_rows_answer :: "db \<Rightarrow> uuid list \<Rightarrow> status_update list \<Rightarrow> bool" where
  "status_rows_answer d barangayIds latestStatuses =
     (mset latestStatuses =
        mset (filter (\<lambda>s. su_barangay_id s \<in> set barangayIds) (barangay_status_updates d)) \<and>
      sorted_wrt (\<lambda>s t. su_created_at t \<le> su_created_at s) latestStatuses)"

text \<open>The loop that keeps, for each barangay, the first row of the answer.\<close>

definition latestByBarangay :: "status_update list \<Rightarrow> (uuid \<rightharpoonup> status_update)" where
  "latestByBarangay latestStatuses =
     foldl (\<lambda>m s. case m (su_barangay_id s) of None \<Rightarrow> m(su_barangay_id s \<mapsto> s) | Some _ \<Rightarrow> m)
           Map.empty latestStatuses"

record BarangayWithStatus =
  bws_id :: uuid
  bws_name :: string
  bws_status :: BarangayStatusEnum
  bws_statusUpdatedAt :: "timestamptz option"
  bws_statusDescription :: "string option"
  bws_statusUpdateId :: "uuid option"

definition fetchBarangaysWithStatus :: "db \<Rightarrow> status_update list \<Rightarrow> BarangayWithStatus list" where
  "fetchBarangaysWithStatus d latestStatuses =
     map (\<lambda>b. let info = latestByBarangay latestStatuses (b_id b) in
            \<lparr> bws_id = b_id b, bws_name = b_name b,
              bws_status = (case info of None \<Rightarrow> normal | Some s \<Rightarrow> su_status s),
              bws_statusUpdatedAt = map_option su_created_at info,
              bws_statusDescription = Option.bind info su_description,
              bws_statusUpdateId = map_option su_id info \<rparr>)
         (filter (\<lambda>b. b_boundary_approved_at b \<noteq> None) (barangays d))"

section \<open>Barangay assistance service\<close>

text \<open>
  \<open>INSERT\<close> policies on \<open>barangay_assistance_offers\<close> (LGU as replaced by 20250233, admin),
  the \<open>UPDATE\<close> policy \<open>assistance_update_own\<close> of 20250233 and the table's check constraint.
\<close>

definition assistance_insert_lgu :: "ctx \<Rightarrow> db \<Rightarrow> assistance_offer \<Rightarrow> sql_bool" where
  "assistance_insert_lgu c d ofr =
     sql_and (sql_eq (Some (ao_created_by ofr)) (auth_uid c))
       (sql_or
          (sql_and (sql_and (sql_in (current_user_role c d) [lgu_responder, barangay_responder])
                      (sql_eq (ao_helping_barangay_id ofr) (current_user_barangay_id c d)))
             (sql_neq (ao_helping_barangay_id ofr) (Some (ao_recipient_barangay_id ofr))))
          (sql_and (sql_and (sql_eq (current_user_role c d) (Some municipal_responder))
                      (sql_eq (ao_helping_municipality_id ofr) (current_user_municipality_id c d)))
             (Some (ao_helping_barangay_id ofr = None))))"

definition assistance_insert_admin :: "ctx \<Rightarrow> db \<Rightarrow> assistance_offer \<Rightarrow> sql_bool" where
  "assistance_insert_admin c d ofr =
     sql_and (sql_in (current_user_role c d) [admin, super_admin])
             (sql_eq (Some (ao_created_by ofr)) (auth_uid c))"

definition assistance_update_own :: "ctx \<Rightarrow> db \<Rightarrow> assistance_offer \<Rightarrow> sql_bool" where
  "assistance_update_own c d ofr =
     sql_or
       (sql_and (sql_in (current_user_role c d) [lgu_responder, barangay_responder])
          (sql_eq (ao_helping_barangay_id ofr) (current_user_barangay_id c d)))
       (sql_and (sql_eq (current_user_role c d) (Some municipal_responder))
          (sql_eq (ao_helping_municipality_id ofr) (current_user_municipality_id c d)))"

text \<open>A check constraint rejects a row only when its condition is FALSE.\<close>

definition no_self_assistance :: "assistance_offer \<Rightarrow> sql_bool" where
  "no_self_assistance ofr =
     sql_and
       (sql_or (Some (ao_helping_barangay_id ofr = None))
          (sql_neq (ao_helping_barangay_id ofr) (Some (ao_recipient_barangay_id ofr))))
       (sql_or (Some (ao_helping_barangay_id ofr \<noteq> None))
          (Some (ao_helping_municipality_id ofr \<noteq> None)))"

definition insert_barangay_assistance_offer ::
  "ctx \<Rightarrow> db \<Rightarrow> assistance_offer \<Rightarrow> (uuid option \<times> string option) \<times> db" where
  "insert_barangay_assistance_offer c d ofr =
     (if \<not> (is_true (assistance_insert_lgu c d ofr) \<or> is_true (assistance_insert_admin c d ofr))
        then ((None, Some ''new row violates row-level security policy''), d)
      else if no_self_assistance ofr = Some False
        then ((None, Some ''violates check constraint no_self_assistance''), d)
      else if ao_id ofr \<in> ao_id ` set (barangay_assistance_offers d) \<or>
              ao_recipient_barangay_id ofr \<notin> b_id ` set (barangays d) \<or>
              \<not> references (ao_helping_barangay_id ofr) (map b_id (barangays d)) \<or>
              \<not> references (ao_helping_municipality_id ofr) (map mu_id (municipalities d)) \<or>
              \<not> references (ao_status_update_id ofr) (map su_id (barangay_status_updates d)) \<or>
              ao_created_by ofr \<notin> pf_id ` set (profiles d)
        then ((None, Some ''violates key constraint''), d)
      else ((Some (ao_id ofr), None),
            d\<lparr> barangay_assistance_offers := barangay_assistance_offers d @ [ofr] \<rparr>))"

record offer_options =
  oo_statusUpdateId :: "uuid option"
  oo_expectedArrivalAt :: "string option"
  oo_imageUrl :: "string option"

text \<open>
  \<open>createAssistanceOffer\<close>.  The profile is read through the client, so under the \<open>SELECT\<close>
  policies of \<open>profiles\<close>; \<open>.single()\<close> gives no data when no row is visible.  The row sent
  to the store is \<open>payload\<close>, completed by the column default \<open>id\<close>.
\<close>

definition createAssistanceOffer_payload ::
  "ctx \<Rightarrow> db \<Rightarrow> uuid \<Rightarrow> string \<Rightarrow> uuid \<Rightarrow> offer_options option \<Rightarrow> assistance_offer" where
  "createAssistanceOffer_payload c d recipientBarangayId description userId options =
     (let profile = find (\<lambda>p. pf_id p = userId \<and> profiles_select c d p) (profiles d);
          isMunicipal =
            (map_option pf_role profile = Some municipal_responder \<and>
             Option.bind profile pf_municipality_id \<noteq> None);
          helpingBarangayId = Option.bind profile pf_barangay_id;
          helpingMunicipalityId = Option.bind profile pf_municipality_id
      in
        \<lparr> ao_id = gen_random_uuid c 0,
          ao_helping_barangay_id = (if isMunicipal then None else helpingBarangayId),
          ao_helping_municipality_id = (if isMunicipal then helpingMunicipalityId else None),
          ao_recipient_barangay_id = recipientBarangayId,
          ao_status_update_id = Option.bind options oo_statusUpdateId,
          ao_description = js_trim description,
          ao_assistance_image_url = Option.bind options oo_imageUrl,
          ao_expected_arrival_at = Option.bind options oo_expectedArrivalAt,
          ao_delivered_at = None,
          ao_created_by = userId \<rparr>)"

definition createAssistanceOffer ::
  "ctx \<Rightarrow> db \<Rightarrow> uuid \<Rightarrow> string \<Rightarrow> uuid \<Rightarrow> offer_options option \<Rightarrow> (uuid option \<times> string option) \<times> db" where
  "createAssistanceOffer c d recipientBarangayId description userId options =
     (if description = [] \<or> length (js_trim description) < 3
        then ((None, Some ''Please describe the assistance (at least 3 characters).''), d)
      else
        (let profile = find (\<lambda>p. pf_id p = userId \<and> profiles_select c d p) (profiles d);
             isMunicipal =
               (map_option pf_role profile = Some municipal_responder \<and>
                Option.bind profile pf_municipality_id \<noteq> None);
             helpingBarangayId = Option.bind profile pf_barangay_id;
             helpingMunicipalityId = Option.bind profile pf_municipality_id;
             payload = createAssistanceOffer_payload c d recipientBarangayId description userId options
         in
           if isMunicipal \<and> helpingMunicipalityId \<noteq> None
             then insert_barangay_assistance_offer c d payload
           else if helpingBarangayId \<noteq> None
             then (if helpingBarangayId = Some recipientBarangayId
                   then ((None, Some ''You cannot offer assistance to your own barangay.''), d)
                   else insert_barangay_assistance_offer c d payload)
           else ((None, Some ''Your barangay or municipality is not assigned. Contact admin.''), d)))"

text \<open>
  \<open>markAssistanceDelivered\<close>: an \<open>UPDATE ... WHERE id = offerId\<close> through the client, which
  touches only the rows that \<open>assistance_update_own\<close> admits, and reports no error when it
  touches none.  The timestamp is the caller's clock.
\<close>

definition markAssistanceDelivered :: "ctx \<Rightarrow> db \<Rightarrow> uuid \<Rightarrow> string option \<times> db" where
  "markAssistanceDelivered c d offerId =
     (None,
      d\<lparr> barangay_assistance_offers :=
           map (\<lambda>ofr. if ao_id ofr = offerId \<and> is_true (assistance_update_own c d ofr)
                     then ofr\<lparr> ao_delivered_at := Some (now c) \<rparr> else ofr)
               (barangay_assistance_offers d) \<rparr>)"

text \<open>
  The helping party of an offer in the words of the specification: a barangay-level responder
  of the helping barangay, or a municipal responder of the helping municipality.
\<close>

definition spec_helping_party :: "ctx \<Rightarrow> db \<Rightarrow> assistance_offer \<Rightarrow> bool" where
  "spec_helping_party c d ofr =
     (case current_profile c d of
        None \<Rightarrow> False
      | Some p \<Rightarrow>
          (pf_role p \<in> {lgu_responder, barangay_responder} \<and> pf_barangay_id p \<noteq> None \<and>
             ao_helping_barangay_id ofr = pf_barangay_id p) \<or>
          (pf_role p = municipal_responder \<and> pf_municipality_id p \<noteq> None \<and>
             ao_helping_municipality_id ofr = pf_municipality_id p))"

section \<open>Dashboard gates\<close>

datatype dashboard_mode = guest | lgu

text \<open>
  \<open>canAssist\<close> and \<open>isOwnBarangay\<close> of \<open>buildBarangayPopupHtml\<close>; the popup shows the
  "Provide Assistance" button in the branch \<open>else if (canAssist)\<close> after \<open>if (isOwnBarangay)\<close>.
  \<open>lguBarangayInfo\<close> is represented by its \<open>id\<close>, \<open>b.status\<close> by the text the store sent.
\<close>

definition canAssist :: "dashboard_mode \<Rightarrow> uuid option \<Rightarrow> uuid option \<Rightarrow> uuid \<Rightarrow> string \<Rightarrow> bool" where
  "canAssist mode lguUserId lguBarangayInfo b_id' b_status =
     (mode = lgu \<and> lguUserId \<noteq> None \<and>
      (lguBarangayInfo = None \<or> lguBarangayInfo \<noteq> Some b_id') \<and> isNeedStatus b_status)"

definition isOwnBarangay :: "dashboard_mode \<Rightarrow> uuid option \<Rightarrow> uuid \<Rightarrow> bool" where
  "isOwnBarangay mode lguBarangayInfo b_id' = (mode = lgu \<and> lguBarangayInfo = Some b_id')"

definition provide_assistance_button ::
  "dashboard_mode \<Rightarrow> uuid option \<Rightarrow> uuid option \<Rightarrow> uuid \<Rightarrow> string \<Rightarrow> bool" where
  "provide_assistance_button mode lguUserId lguBarangayInfo b_id' b_status =
     (\<not> isOwnBarangay mode lguBarangayInfo b_id' \<and>
      canAssist mode lguUserId lguBarangayInfo b_id' b_status)"

text \<open>
  The assistance log shows "Mark delivered" in the branch \<open>{:else if canMarkDelivered}\<close> after
  \<open>{#if offer.deliveredAt}\<close>.
\<close>

definition canMarkDelivered :: "uuid option \<Rightarrow> uuid option \<Rightarrow> assistance_offer \<Rightarrow> bool" where
  "canMarkDelivered lguBarangayInfo lguMunicipalityId ofr =
     ((lguBarangayInfo \<noteq> None \<and> lguBarangayInfo = ao_helping_barangay_id ofr) \<or>
      (lguMunicipalityId \<noteq> None \<and> ao_helping_municipality_id ofr = lguMunicipalityId))"

definition mark_delivered_button :: "uuid option \<Rightarrow> uuid option \<Rightarrow> assistance_offer \<Rightarrow> bool" where
  "mark_delivered_button lguBarangayInfo lguMunicipalityId ofr =
     (ao_delivered_at ofr = None \<and> canMarkDelivered lguBarangayInfo lguMunicipalityId ofr)"


section \<open>Boundary requests: submission\<close>

text \<open>The all-zero UUID that the service passes for "no barangay".\<close>

definition nil_uuid :: uuid where
  "nil_uuid = 0"

text \<open>
  \<open>submit_barangay_boundary_request\<close> with seven parameters (the version the service calls):
  five guards, then the insert.  The inserted row takes \<open>id\<close> and \<open>status = 'pending'\<close> from
  the column defaults.  The insert raises when a key is violated: \<open>requested_by\<close> needs the
  caller's profile, \<open>municipality_id\<close> an existing municipality, a non-null \<open>barangay_id\<close>
  an existing barangay.
\<close>

definition boundary_request_row ::
  "ctx \<Rightarrow> uuid \<Rightarrow> uuid \<Rightarrow> uuid option \<Rightarrow> string \<Rightarrow> jsonb \<Rightarrow> string option \<Rightarrow> string option \<Rightarrow>
     string option \<Rightarrow> boundary_request" where
  "boundary_request_row c requested_by mun p_barangay_id name geo p_contact_email
       p_contact_phone p_description =
     \<lparr> rq_id = gen_random_uuid c 0,
       rq_requested_by = requested_by,
       rq_municipality_id = mun,
       rq_barangay_id = (if p_barangay_id = Some nil_uuid then None else p_barangay_id),
       rq_barangay_name = sql_trim name,
       rq_boundary_geojson = geo,
       rq_contact_email = map_option sql_trim p_contact_email,
       rq_contact_phone = map_option sql_trim p_contact_phone,
       rq_description =
         nullif_empty (Some (sql_trim (case p_description of None \<Rightarrow> [] | Some t \<Rightarrow> t))),
       rq_status = rq_pending,
       rq_reviewed_by = None,
       rq_reviewed_at = None,
       rq_rejection_reason = None \<rparr>"

definition insert_barangay_boundary_request ::
  "ctx \<Rightarrow> db \<Rightarrow> uuid option \<Rightarrow> uuid option \<Rightarrow> boundary_request \<Rightarrow> uuid option rpc \<times> db" where
  "insert_barangay_boundary_request c d requested_by municipality_id row =
     (if requested_by = None \<or> \<not> references requested_by (map pf_id (profiles d)) \<or>
         municipality_id = None \<or>
         \<not> references municipality_id (map mu_id (municipalities d)) \<or>
         \<not> references (rq_barangay_id row) (map b_id (barangays d)) \<or>
         rq_id row \<in> rq_id ` set (barangay_boundary_requests d)
      then (Raised, d)
      else (Returned (Some (rq_id row)),
            d\<lparr> barangay_boundary_requests := barangay_boundary_requests d @ [row] \<rparr>))"

definition submit_barangay_boundary_request ::
  "ctx \<Rightarrow> db \<Rightarrow> uuid option \<Rightarrow> uuid option \<Rightarrow> string option \<Rightarrow> jsonb option \<Rightarrow>
     string option \<Rightarrow> string option \<Rightarrow> string option \<Rightarrow> uuid option rpc \<times> db" where
  "submit_barangay_boundary_request c d p_municipality_id p_barangay_id p_barangay_name
       p_boundary_geojson p_contact_email p_contact_phone p_description =
     (if is_true (sql_not (sql_in (current_user_role c d)
                     [lgu_responder, barangay_responder, municipal_responder]))
        then (Returned None, d)
      else if p_barangay_name = None \<or> map_option sql_trim p_barangay_name = Some []
        then (Returned None, d)
      else if p_boundary_geojson = None then (Returned None, d)
      else if p_contact_email = None \<or> map_option sql_trim p_contact_email = Some []
        then (Returned None, d)
      else if p_contact_phone = None \<or> map_option sql_trim p_contact_phone = Some []
        then (Returned None, d)
      else
        insert_barangay_boundary_request c d (auth_uid c) p_municipality_id
          (boundary_request_row c
             (case auth_uid c of None \<Rightarrow> nil_uuid | Some u \<Rightarrow> u)
             (case p_municipality_id of None \<Rightarrow> nil_uuid | Some m \<Rightarrow> m)
             p_barangay_id
             (case p_barangay_name of None \<Rightarrow> [] | Some name \<Rightarrow> name)
             (case p_boundary_geojson of None \<Rightarrow> [] | Some geo \<Rightarrow> geo)
             p_contact_email p_contact_phone p_description))"

text \<open>
  \<open>submitBoundaryRequest\<close> of the boundary service: it trims and forwards; the result is the
  new request's id on success and nothing when the call raised or returned NULL.
\<close>

definition submitBoundaryRequest ::
  "ctx \<Rightarrow> db \<Rightarrow> uuid \<Rightarrow> uuid option \<Rightarrow> string \<Rightarrow> jsonb option \<Rightarrow> string \<Rightarrow> string \<Rightarrow>
     string option \<Rightarrow> uuid option \<times> db" where
  "submitBoundaryRequest c d municipalityId barangayId barangayName boundaryGeojson
       contactEmail contactPhone description =
     (case submit_barangay_boundary_request c d (Some municipalityId)
             (Some (case barangayId of None \<Rightarrow> nil_uuid | Some b \<Rightarrow> b))
             (Some (js_trim barangayName)) boundaryGeojson
             (Some (js_trim contactEmail)) (Some (js_trim contactPhone))
             (map_option js_trim description) of
        (Raised, d') \<Rightarrow> (None, d')
      | (Returned None, d') \<Rightarrow> (None, d')
      | (Returned (Some v_id), d') \<Rightarrow> (Some v_id, d'))"

text \<open>
  The two regular expressions of \<open>startDrawBoundary\<close>.
  \<^verbatim>\<open>/^[^\s@]+@[^\s@]+\.[^\s@]+$/\<close>: one \<open>@\<close> only, a non-empty part before it, and after it
  a part with a dot that is neither its first nor its last character.
  \<^verbatim>\<open>/^(09\d{9}|\+639\d{9})$/\<close>, applied after white space and hyphens are removed.
\<close>

definition email_atom :: "char \<Rightarrow> bool" where
  "email_atom ch = (\<not> js_whitespace ch \<and> ch \<noteq> CHR ''@'')"

definition email_pattern :: "string \<Rightarrow> bool" where
  "email_pattern s =
     (let local = takeWhile (\<lambda>ch. ch \<noteq> CHR ''@'') s;
          rest = dropWhile (\<lambda>ch. ch \<noteq> CHR ''@'') s
      in local \<noteq> [] \<and> list_all email_atom local \<and>
         (case rest of
            [] \<Rightarrow> False
          | _ # domain \<Rightarrow> list_all email_atom domain \<and> CHR ''.'' \<in> set (butlast (tl domain))))"

definition digit :: "char \<Rightarrow> bool" where
  "digit ch = (ch \<in> set ''0123456789'')"

definition ph_phone_pattern :: "string \<Rightarrow> bool" where
  "ph_phone_pattern s =
     ((length s = 11 \<and> take 2 s = ''09'' \<and> list_all digit (drop 2 s)) \<or>
      (length s = 13 \<and> take 4 s = ''+639'' \<and> list_all digit (drop 4 s)))"

text \<open>
  The checks of \<open>startDrawBoundary\<close> for a responder without a barangay, before the drawing
  tool (and with it the later call of \<open>submitBoundaryRequest\<close>) is started: the error shown,
  or none.
\<close>

definition startDrawBoundary :: "uuid option \<Rightarrow> string \<Rightarrow> string \<Rightarrow> string \<Rightarrow> string option" where
  "startDrawBoundary selectedMunicipalityId newBarangayName boundaryContactEmail
       boundaryContactPhone =
     (if selectedMunicipalityId = None then Some ''Select a municipality first.''
      else if js_trim newBarangayName = [] then Some ''Enter the new barangay name.''
      else if js_trim boundaryContactEmail = []
        then Some ''Contact email is required before submitting.''
      else if \<not> email_pattern (js_trim boundaryContactEmail)
        then Some ''Enter a valid email address.''
      else if js_trim boundaryContactPhone = []
        then Some ''Contact number is required before submitting.''
      else if \<not> ph_phone_pattern
                  (filter (\<lambda>ch. \<not> js_whitespace ch \<and> ch \<noteq> CHR ''-'') boundaryContactPhone)
        then Some ''Enter a valid PH number (09XXXXXXXXX or +63 9XXXXXXXXX).''
      else None)"


section \<open>A small database for concrete runs\<close>

text \<open>
  Two municipalities; barangays 20 and 21 in municipality 1 and barangay 30 in municipality 2,
  all with an approved boundary.  Actors: 1 admin; 2 a barangay responder without barangay;
  3 a municipal responder of municipality 1; 4 a barangay responder of barangay 20; 5 a
  resident; 6 a municipal responder whose municipality is not set.
\<close>

definition ex_profile :: "uuid \<Rightarrow> user_role \<Rightarrow> uuid option \<Rightarrow> uuid option \<Rightarrow> profile" where
  "ex_profile i r b m =
     \<lparr> pf_id = i, pf_role = r, pf_barangay_id = b, pf_municipality_id = m,
       pf_proof_of_employment_url = None \<rparr>"

definition ex_barangay :: "uuid \<Rightarrow> uuid \<Rightarrow> string \<Rightarrow> barangay" where
  "ex_barangay i m n =
     \<lparr> b_id = i, b_municipality_id = m, b_name = n, b_boundary_geojson = Some ''{}'',
       b_boundary_approved_at = Some 1 \<rparr>"

definition ex_request :: "uuid \<Rightarrow> uuid \<Rightarrow> uuid \<Rightarrow> request_status \<Rightarrow> boundary_request" where
  "ex_request i u m s =
     \<lparr> rq_id = i, rq_requested_by = u, rq_municipality_id = m, rq_barangay_id = None,
       rq_barangay_name = ''Tunghaan'', rq_boundary_geojson = ''{}'',
       rq_contact_email = Some ''lgu@example.ph'', rq_contact_phone = Some ''09171234567'',
       rq_description = None, rq_status = s, rq_reviewed_by = None, rq_reviewed_at = None,
       rq_rejection_reason = None \<rparr>"

definition ex_db :: db where
  "ex_db =
     \<lparr> users = [],
       profiles =
         [ex_profile 1 admin None None,
          ex_profile 2 barangay_responder None None,
          ex_profile 3 municipal_responder None (Some 1),
          ex_profile 4 barangay_responder (Some 20) (Some 1),
          ex_profile 5 resident None None,
          ex_profile 6 municipal_responder None None],
       municipalities = [\<lparr> mu_id = 1, mu_name = ''Minglanilla'' \<rparr>, \<lparr> mu_id = 2, mu_name = ''Talisay'' \<rparr>],
       barangays = [ex_barangay 20 1 ''Tulay'', ex_barangay 21 1 ''Linao'', ex_barangay 30 2 ''Lawaan''],
       barangay_boundary_requests =
         [ex_request 7 2 1 rq_pending, ex_request 8 2 1 rq_rejected, ex_request 9 2 2 rq_pending],
       lgu_barangay_memberships =
         [\<lparr> m_id = 40, m_profile_id = 4, m_barangay_id = 20, m_is_creator = False,
            m_joined_at = 1, m_left_at = None, m_leave_reason = None \<rparr>],
       barangay_status_updates = [],
       barangay_assistance_offers = [] \<rparr>"

definition ex_ctx :: "uuid \<Rightarrow> timestamptz \<Rightarrow> ctx" where
  "ex_ctx u t = \<lparr> auth_uid = Some u, now = t, gen_random_uuid = (\<lambda>n. 100 * t + n) \<rparr>"

definition ex_report :: report where
  "ex_report = \<lparr> r_id = 60, r_reporter_id = 4, r_barangay_id = 20, r_status = pending \<rparr>"

text \<open>A guest session, and the signup of a municipal responder with a proof of employment.\<close>

definition ex_guest :: "timestamptz \<Rightarrow> ctx" where
  "ex_guest t = \<lparr> auth_uid = None, now = t, gen_random_uuid = (\<lambda>n. 100 * t + n) \<rparr>"

definition ex_new_user :: auth_user where
  "ex_new_user = \<lparr> u_id = 70, u_email = Some ''new@lgu.ph'', u_email_confirmed_at = None \<rparr>"

definition ex_new_meta :: raw_user_meta_data where
  "ex_new_meta =
     \<lparr> meta_role = Valid municipal_responder, meta_municipality_id = Valid 1,
       meta_barangay_id = Null,
       meta_proof_of_employment_url = Some ''https://storage.example/proof.jpg'' \<rparr>"

text \<open>The same database after barangay 21 has reported status "normal".\<close>

definition ex_status_row :: status_update where
  "ex_status_row =
     \<lparr> su_id = 80, su_barangay_id = 21, su_updated_by = 3, su_status = normal, su_notes = None,
       su_description = None, su_photo_urls = [], su_created_at = 2 \<rparr>"

definition ex_db_normal :: db where
  "ex_db_normal = ex_db\<lparr> barangay_status_updates := [ex_status_row] \<rparr>"

text \<open>The same database with an offer of barangay 20 to barangay 21, not yet delivered.\<close>

definition ex_offer :: assistance_offer where
  "ex_offer =
     \<lparr> ao_id = 90, ao_helping_barangay_id = Some 20, ao_helping_municipality_id = None,
       ao_recipient_barangay_id = 21, ao_status_update_id = None,
       ao_description = ''rice and water'', ao_assistance_image_url = None,
       ao_expected_arrival_at = None, ao_delivered_at = None, ao_created_by = 4 \<rparr>"

definition ex_db_offer :: db where
  "ex_db_offer = ex_db\<lparr> barangay_assistance_offers := [ex_offer] \<rparr>"

text \<open>Options of a status update: the description of the specification's example.\<close>

definition ex_options :: "string \<Rightarrow> status_options option" where
  "ex_options t = Some \<lparr> so_notes = None, so_description = Some t, so_photoUrls = None \<rparr>"


section \<open>Unfolding the model on concrete data\<close>

lemmas sql_defs =
  sql_eq_def sql_neq_def sql_in_def sql_not_def sql_and_def sql_or_def is_true_def
  scalar_subquery_def nullif_empty_def references_def

lemmas string_defs = js_whitespace_def js_trim_def sql_trim_def

lemmas session_defs =
  current_profile_def current_user_role_def current_user_barangay_id_def
  current_user_municipality_id_def current_user_is_lgu_type_def
  current_user_can_access_barangay_def

lemmas ex_defs =
  ex_profile_def ex_barangay_def ex_request_def ex_db_def ex_ctx_def ex_report_def
  ex_guest_def ex_new_user_def ex_new_meta_def ex_status_row_def ex_db_normal_def ex_offer_def ex_db_offer_def ex_options_def

lemmas review_defs =
  approve_barangay_boundary_request_def reject_barangay_boundary_request_def can_review_def
  pending_request_def approve_effects_def

lemma find_filter:
  "find P xs = (case filter P xs of [] \<Rightarrow> None | x # _ \<Rightarrow> Some x)"
  by (induction xs) simp_all

lemmas lifecycle_defs =
  join_barangay_def leave_barangay_def handle_new_user_def on_auth_user_created_def
  open_memberships_def submit_barangay_boundary_request_def submitBoundaryRequest_def
  boundary_request_row_def insert_barangay_boundary_request_def
  nil_uuid_def check_login_eligibility_def handleLogin_def

lemmas report_policy_defs =
  reports_select_def reports_select_before_public_def reports_select_own_def
  reports_select_barangay_lgu_def reports_select_admin_def reports_select_verified_any_def
  reports_select_public_def spec_pending_report_reader_def

lemmas status_defs =
  status_text_def NEED_STATUSES_def LEGACY_NEED_STATUSES_def isNeedStatus_def
  barangay_status_insert_lgu_def barangay_status_insert_admin_def
  insert_barangay_status_update_def updateBarangayStatus_def updateBarangayStatus_payload_def
  status_rows_answer_def
  latestByBarangay_def fetchBarangaysWithStatus_def

lemmas assistance_defs =
  assistance_insert_lgu_def assistance_insert_admin_def assistance_update_own_def
  no_self_assistance_def insert_barangay_assistance_offer_def createAssistanceOffer_def
  createAssistanceOffer_payload_def
  markAssistanceDelivered_def profiles_select_def profiles_select_same_barangay_lgu_def

lemmas dashboard_defs =
  canAssist_def isOwnBarangay_def provide_assistance_button_def canMarkDelivered_def
  mark_delivered_button_def


section \<open>Facts about reviewing\<close>

lemma can_review_no_pending:
  assumes "filter (pending_request p) (barangay_boundary_requests d) = []"
  shows "\<exists>v. can_review c d p = Returned v"
  using assms by (simp add: can_review_def scalar_subquery_def)

lemma find_no_pending:
  assumes "filter (pending_request p) (barangay_boundary_requests d) = []"
  shows "find (pending_request p) (barangay_boundary_requests d) = None"
  using assms by (simp add: find_None_iff filter_empty_conv)

lemma approve_no_pending:
  assumes "filter (pending_request p) (barangay_boundary_requests d) = []"
  shows "approve_barangay_boundary_request c d p = (Returned False, d)"
proof -
  obtain v where v: "can_review c d p = Returned v"
    using can_review_no_pending [OF assms] by blast
  show ?thesis
    by (simp add: approve_barangay_boundary_request_def v find_no_pending [OF assms])
qed

lemma reject_no_pending:
  assumes "filter (pending_request p) (barangay_boundary_requests d) = []"
  shows "reject_barangay_boundary_request c d p r = (Returned False, d)"
proof -
  obtain v where v: "can_review c d p = Returned v"
    using can_review_no_pending [OF assms] by blast
  show ?thesis
    by (simp add: reject_barangay_boundary_request_def v find_no_pending [OF assms])
qed

lemma filter_pending_after_review:
  assumes "\<And>q. rq_status (g q) \<noteq> rq_pending"
  shows "filter (pending_request p) (map (\<lambda>q. if rq_id q = p then g q else q) qs) = []"
  using assms by (induction qs) (simp_all add: pending_request_def)

lemma approve_effects_requests:
  "filter (pending_request p) (barangay_boundary_requests (approve_effects c d p v_req b)) = []"
  by (simp add: approve_effects_def filter_pending_after_review)

lemma approve_effects_memberships:
  "length (lgu_barangay_memberships (approve_effects c d p v_req b)) =
     Suc (length (lgu_barangay_memberships d))"
  by (simp add: approve_effects_def)

lemma approve_success_shape:
  assumes "approve_barangay_boundary_request c d p = (Returned True, d')"
  shows "filter (pending_request p) (barangay_boundary_requests d') = [] \<and>
         length (lgu_barangay_memberships d') = Suc (length (lgu_barangay_memberships d))"
proof (cases "can_review c d p")
  case Raised
  with assms show ?thesis by (simp add: approve_barangay_boundary_request_def)
next
  case (Returned v)
  show ?thesis
  proof (cases "find (pending_request p) (barangay_boundary_requests d)")
    case None
    with assms Returned show ?thesis
      by (simp add: approve_barangay_boundary_request_def split: if_splits)
  next
    case (Some v_req)
    note fnd = this
    show ?thesis
    proof (cases "rq_barangay_id v_req")
      case None
      with assms Returned fnd
      have "\<exists>bs. d' = approve_effects c (d\<lparr>barangays := bs\<rparr>) p v_req (gen_random_uuid c 0)"
        by (simp add: approve_barangay_boundary_request_def split: if_splits) blast
      then obtain bs
        where "d' = approve_effects c (d\<lparr>barangays := bs\<rparr>) p v_req (gen_random_uuid c 0)" ..
      then show ?thesis
        by (simp add: approve_effects_requests approve_effects_memberships)
    next
      case (Some bid)
      with assms Returned fnd
      have "\<exists>bs. d' = approve_effects c (d\<lparr>barangays := bs\<rparr>) p v_req bid"
        by (simp add: approve_barangay_boundary_request_def split: if_splits) blast
      then obtain bs where "d' = approve_effects c (d\<lparr>barangays := bs\<rparr>) p v_req bid" ..
      then show ?thesis
        by (simp add: approve_effects_requests approve_effects_memberships)
    qed
  qed
qed

text \<open>What a successful approval has done, as one update of the database.\<close>

lemma approve_success_effects:
  assumes "approve_barangay_boundary_request c d p = (Returned True, d')"
  shows "\<exists>v_req. find (pending_request p) (barangay_boundary_requests d) = Some v_req \<and>
           (case rq_barangay_id v_req of
              Some bid \<Rightarrow>
                d' = approve_effects c
                       (d\<lparr> barangays :=
                             map (\<lambda>b. if b_id b = bid
                                       then b\<lparr> b_boundary_geojson := Some (rq_boundary_geojson v_req),
                                               b_boundary_approved_at := Some (now c) \<rparr>
                                       else b) (barangays d) \<rparr>)
                       p v_req bid
            | None \<Rightarrow>
                gen_random_uuid c 0 \<notin> b_id ` set (barangays d) \<and>
                d' = approve_effects c
                       (d\<lparr> barangays :=
                             barangays d @
                               [\<lparr> b_id = gen_random_uuid c 0,
                                  b_municipality_id = rq_municipality_id v_req,
                                  b_name = rq_barangay_name v_req,
                                  b_boundary_geojson = Some (rq_boundary_geojson v_req),
                                  b_boundary_approved_at = Some (now c) \<rparr>] \<rparr>)
                       p v_req (gen_random_uuid c 0))"
proof (cases "can_review c d p")
  case Raised
  with assms show ?thesis by (simp add: approve_barangay_boundary_request_def)
next
  case (Returned v)
  show ?thesis
  proof (cases "find (pending_request p) (barangay_boundary_requests d)")
    case None
    with assms Returned show ?thesis
      by (simp add: approve_barangay_boundary_request_def split: if_splits)
  next
    case (Some v_req)
    note fnd = this
    show ?thesis
    proof (cases "rq_barangay_id v_req")
      case None
      with assms Returned fnd show ?thesis
        by (simp add: approve_barangay_boundary_request_def split: if_splits)
    next
      case (Some bid)
      with assms Returned fnd show ?thesis
        by (simp add: approve_barangay_boundary_request_def split: if_splits)
    qed
  qed
qed

text \<open>
  The tables after a successful approval, read off the statements of the function:
  \<open>v_req\<close> is the pending row that \<open>SELECT ... INTO\<close> found, and \<open>v_barangay_id\<close> the barangay
  it names or, if it names none, the id of the barangay that the call creates.
\<close>

lemma approve_success_tables:
  assumes "approve_barangay_boundary_request c d p = (Returned True, d')"
  shows "\<exists>v_req v_barangay_id.
           find (pending_request p) (barangay_boundary_requests d) = Some v_req \<and>
           v_barangay_id =
             (case rq_barangay_id v_req of Some bid \<Rightarrow> bid | None \<Rightarrow> gen_random_uuid c 0) \<and>
           barangays d' =
             (case rq_barangay_id v_req of
                Some bid \<Rightarrow>
                  map (\<lambda>b. if b_id b = bid
                            then b\<lparr> b_boundary_geojson := Some (rq_boundary_geojson v_req),
                                    b_boundary_approved_at := Some (now c) \<rparr>
                            else b) (barangays d)
              | None \<Rightarrow>
                  barangays d @
                    [\<lparr> b_id = gen_random_uuid c 0, b_municipality_id = rq_municipality_id v_req,
                       b_name = rq_barangay_name v_req,
                       b_boundary_geojson = Some (rq_boundary_geojson v_req),
                       b_boundary_approved_at = Some (now c) \<rparr>]) \<and>
           profiles d' =
             map (\<lambda>x. if pf_id x = rq_requested_by v_req
                       then x\<lparr> pf_barangay_id := Some v_barangay_id,
                               pf_municipality_id := Some (rq_municipality_id v_req) \<rparr>
                       else x) (profiles d) \<and>
           lgu_barangay_memberships d' =
             lgu_barangay_memberships d @
               [\<lparr> m_id = gen_random_uuid c 1, m_profile_id = rq_requested_by v_req,
                  m_barangay_id = v_barangay_id, m_is_creator = True, m_joined_at = now c,
                  m_left_at = None, m_leave_reason = None \<rparr>] \<and>
           barangay_boundary_requests d' =
             map (\<lambda>q. if rq_id q = p
                       then q\<lparr> rq_status := rq_approved, rq_reviewed_by := auth_uid c,
                               rq_reviewed_at := Some (now c) \<rparr>
                       else q) (barangay_boundary_requests d) \<and>
           users d' = users d \<and> municipalities d' = municipalities d \<and>
           barangay_status_updates d' = barangay_status_updates d \<and>
           barangay_assistance_offers d' = barangay_assistance_offers d"
proof -
  from approve_success_effects [OF assms] obtain v_req
    where fnd: "find (pending_request p) (barangay_boundary_requests d) = Some v_req"
      and eff: "case rq_barangay_id v_req of
              Some bid \<Rightarrow>
                d' = approve_effects c
                       (d\<lparr> barangays :=
                             map (\<lambda>b. if b_id b = bid
                                       then b\<lparr> b_boundary_geojson := Some (rq_boundary_geojson v_req),
                                               b_boundary_approved_at := Some (now c) \<rparr>
                                       else b) (barangays d) \<rparr>)
                       p v_req bid
            | None \<Rightarrow>
                gen_random_uuid c 0 \<notin> b_id ` set (barangays d) \<and>
                d' = approve_effects c
                       (d\<lparr> barangays :=
                             barangays d @
                               [\<lparr> b_id = gen_random_uuid c 0,
                                  b_municipality_id = rq_municipality_id v_req,
                                  b_name = rq_barangay_name v_req,
                                  b_boundary_geojson = Some (rq_boundary_geojson v_req),
                                  b_boundary_approved_at = Some (now c) \<rparr>] \<rparr>)
                       p v_req (gen_random_uuid c 0)"
    by blast
  show ?thesis
  proof (cases "rq_barangay_id v_req")
    case None
    with eff have d': "d' = approve_effects c
                       (d\<lparr> barangays :=
                             barangays d @
                               [\<lparr> b_id = gen_random_uuid c 0,
                                  b_municipality_id = rq_municipality_id v_req,
                                  b_name = rq_barangay_name v_req,
                                  b_boundary_geojson = Some (rq_boundary_geojson v_req),
                                  b_boundary_approved_at = Some (now c) \<rparr>] \<rparr>)
                       p v_req (gen_random_uuid c 0)"
      by simp
    show ?thesis
      apply (rule exI [of _ v_req])
      apply (rule exI [of _ "gen_random_uuid c 0"])
      apply (simp add: fnd None d' approve_effects_def)
      done
  next
    case (Some bid)
    with eff have d': "d' = approve_effects c
                       (d\<lparr> barangays :=
                             map (\<lambda>b. if b_id b = bid
                                       then b\<lparr> b_boundary_geojson := Some (rq_boundary_geojson v_req),
                                               b_boundary_approved_at := Some (now c) \<rparr>
                                       else b) (barangays d) \<rparr>)
                       p v_req bid"
      by simp
    show ?thesis
      apply (rule exI [of _ v_req])
      apply (rule exI [of _ bid])
      apply (simp add: fnd Some d' approve_effects_def)
      done
  qed
qed

text \<open>A successful rejection writes the request row and nothing else.\<close>

lemma reject_success_tables:
  assumes "reject_barangay_boundary_request c d p r = (Returned True, d')"
  shows "filter (pending_request p) (barangay_boundary_requests d') = [] \<and>
         barangays d' = barangays d \<and> profiles d' = profiles d \<and>
         lgu_barangay_memberships d' = lgu_barangay_memberships d"
proof (cases "can_review c d p")
  case Raised
  with assms show ?thesis by (simp add: reject_barangay_boundary_request_def)
next
  case (Returned v)
  show ?thesis
  proof (cases "find (pending_request p) (barangay_boundary_requests d)")
    case None
    with assms Returned show ?thesis
      by (simp add: reject_barangay_boundary_request_def split: if_splits)
  next
    case (Some v_req)
    with assms Returned
    have d': "d' = d\<lparr> barangay_boundary_requests :=
                       map (\<lambda>q. if rq_id q = p
                                 then q\<lparr> rq_status := rq_rejected, rq_reviewed_by := auth_uid c,
                                         rq_reviewed_at := Some (now c),
                                         rq_rejection_reason :=
                                           nullif_empty (Some (sql_trim
                                             (case r of None \<Rightarrow> [] | Some t \<Rightarrow> t))) \<rparr>
                                 else q) (barangay_boundary_requests d) \<rparr>"
      by (simp add: reject_barangay_boundary_request_def split: if_splits)
    show ?thesis
      unfolding d' by (simp add: filter_pending_after_review)
  qed
qed

text \<open>
  C5.  Approving or rejecting a boundary request that is not pending returns false and leaves
  the database as it is.  A successful approval applies its effects once: with \<open>v_req\<close> the
  pending row and \<open>v_barangay_id\<close> its barangay (or the one created for it), the barangay gets
  the requested geometry and the approval time, the requester's profile gets that barangay
  and the request's municipality, one creator membership of the requester in that barangay
  is appended, the request row becomes approved, and no other table changes; after that, a
  second approval (or a rejection) of the same request, by any caller at any time, returns
  false and changes nothing.  A successful rejection writes the request row only, and
  likewise cannot be followed by an approval or a second rejection.
\<close>

theorem approve_reject_non_pending_is_no_op:
  "((\<forall>q \<in> set (barangay_boundary_requests d). rq_id q = p \<longrightarrow> rq_status q \<noteq> rq_pending) \<longrightarrow>
      approve_barangay_boundary_request c d p = (Returned False, d) \<and>
      reject_barangay_boundary_request c d p reason = (Returned False, d))
   \<and>
   (approve_barangay_boundary_request c d p = (Returned True, d') \<longrightarrow>
      (\<exists>v_req v_barangay_id.
         find (pending_request p) (barangay_boundary_requests d) = Some v_req \<and>
         v_barangay_id =
           (case rq_barangay_id v_req of Some bid \<Rightarrow> bid | None \<Rightarrow> gen_random_uuid c 0) \<and>
         barangays d' =
           (case rq_barangay_id v_req of
              Some bid \<Rightarrow>
                map (\<lambda>b. if b_id b = bid
                          then b\<lparr> b_boundary_geojson := Some (rq_boundary_geojson v_req),
                                  b_boundary_approved_at := Some (now c) \<rparr>
                          else b) (barangays d)
            | None \<Rightarrow>
                barangays d @
                  [\<lparr> b_id = gen_random_uuid c 0, b_municipality_id = rq_municipality_id v_req,
                     b_name = rq_barangay_name v_req,
                     b_boundary_geojson = Some (rq_boundary_geojson v_req),
                     b_boundary_approved_at = Some (now c) \<rparr>]) \<and>
         profiles d' =
           map (\<lambda>x. if pf_id x = rq_requested_by v_req
                     then x\<lparr> pf_barangay_id := Some v_barangay_id,
                             pf_municipality_id := Some (rq_municipality_id v_req) \<rparr>
                     else x) (profiles d) \<and>
         lgu_barangay_memberships d' =
           lgu_barangay_memberships d @
             [\<lparr> m_id = gen_random_uuid c 1, m_profile_id = rq_requested_by v_req,
                m_barangay_id = v_barangay_id, m_is_creator = True, m_joined_at = now c,
                m_left_at = None, m_leave_reason = None \<rparr>] \<and>
         barangay_boundary_requests d' =
           map (\<lambda>q. if rq_id q = p
                     then q\<lparr> rq_status := rq_approved, rq_reviewed_by := auth_uid c,
                             rq_reviewed_at := Some (now c) \<rparr>
                     else q) (barangay_boundary_requests d) \<and>
         users d' = users d \<and> municipalities d' = municipalities d \<and>
         barangay_status_updates d' = barangay_status_updates d \<and>
         barangay_assistance_offers d' = barangay_assistance_offers d) \<and>
      approve_barangay_boundary_request c' d' p = (Returned False, d') \<and>
      reject_barangay_boundary_request c' d' p reason = (Returned False, d'))
   \<and>
   (reject_barangay_boundary_request c d p reason = (Returned True, d') \<longrightarrow>
      barangays d' = barangays d \<and> profiles d' = profiles d \<and>
      lgu_barangay_memberships d' = lgu_barangay_memberships d \<and>
      approve_barangay_boundary_request c' d' p = (Returned False, d') \<and>
      reject_barangay_boundary_request c' d' p reason' = (Returned False, d'))"
proof (intro conjI impI)
  assume np: "\<forall>q \<in> set (barangay_boundary_requests d). rq_id q = p \<longrightarrow> rq_status q \<noteq> rq_pending"
  then have e: "filter (pending_request p) (barangay_boundary_requests d) = []"
    unfolding filter_empty_conv pending_request_def by blast
  show "approve_barangay_boundary_request c d p = (Returned False, d)"
    by (rule approve_no_pending [OF e])
  show "reject_barangay_boundary_request c d p reason = (Returned False, d)"
    by (rule reject_no_pending [OF e])
next
  assume ok: "approve_barangay_boundary_request c d p = (Returned True, d')"
  have e: "filter (pending_request p) (barangay_boundary_requests d') = []"
    using approve_success_shape [OF ok] by simp
  show "\<exists>v_req v_barangay_id.
         find (pending_request p) (barangay_boundary_requests d) = Some v_req \<and>
         v_barangay_id =
           (case rq_barangay_id v_req of Some bid \<Rightarrow> bid | None \<Rightarrow> gen_random_uuid c 0) \<and>
         barangays d' =
           (case rq_barangay_id v_req of
              Some bid \<Rightarrow>
                map (\<lambda>b. if b_id b = bid
                          then b\<lparr> b_boundary_geojson := Some (rq_boundary_geojson v_req),
                                  b_boundary_approved_at := Some (now c) \<rparr>
                          else b) (barangays d)
            | None \<Rightarrow>
                barangays d @
                  [\<lparr> b_id = gen_random_uuid c 0, b_municipality_id = rq_municipality_id v_req,
                     b_name = rq_barangay_name v_req,
                     b_boundary_geojson = Some (rq_boundary_geojson v_req),
                     b_boundary_approved_at = Some (now c) \<rparr>]) \<and>
         profiles d' =
           map (\<lambda>x. if pf_id x = rq_requested_by v_req
                     then x\<lparr> pf_barangay_id := Some v_barangay_id,
                             pf_municipality_id := Some (rq_municipality_id v_req) \<rparr>
                     else x) (profiles d) \<and>
         lgu_barangay_memberships d' =
           lgu_barangay_memberships d @
             [\<lparr> m_id = gen_random_uuid c 1, m_profile_id = rq_requested_by v_req,
                m_barangay_id = v_barangay_id, m_is_creator = True, m_joined_at = now c,
                m_left_at = None, m_leave_reason = None \<rparr>] \<and>
         barangay_boundary_requests d' =
           map (\<lambda>q. if rq_id q = p
                     then q\<lparr> rq_status := rq_approved, rq_reviewed_by := auth_uid c,
                             rq_reviewed_at := Some (now c) \<rparr>
                     else q) (barangay_boundary_requests d) \<and>
         users d' = users d \<and> municipalities d' = municipalities d \<and>
         barangay_status_updates d' = barangay_status_updates d \<and>
         barangay_assistance_offers d' = barangay_assistance_offers d"
    by (rule approve_success_tables [OF ok])
  show "approve_barangay_boundary_request c' d' p = (Returned False, d')"
    by (rule approve_no_pending [OF e])
  show "reject_barangay_boundary_request c' d' p reason = (Returned False, d')"
    by (rule reject_no_pending [OF e])
next
  assume ok: "reject_barangay_boundary_request c d p reason = (Returned True, d')"
  note t = reject_success_tables [OF ok]
  from t show "barangays d' = barangays d" by simp
  from t show "profiles d' = profiles d" by simp
  from t show "lgu_barangay_memberships d' = lgu_barangay_memberships d" by simp
  from t have e: "filter (pending_request p) (barangay_boundary_requests d') = []" by simp
  show "approve_barangay_boundary_request c' d' p = (Returned False, d')"
    by (rule approve_no_pending [OF e])
  show "reject_barangay_boundary_request c' d' p reason' = (Returned False, d')"
    by (rule reject_no_pending [OF e])
qed

theorem approve_reject_non_pending_is_no_op_witness:
  "approve_barangay_boundary_request (ex_ctx 1 5) ex_db 8 = (Returned False, ex_db) \<and>
   reject_barangay_boundary_request (ex_ctx 1 5) ex_db 8 None = (Returned False, ex_db) \<and>
   fst (approve_barangay_boundary_request (ex_ctx 1 5) ex_db 7) = Returned True \<and>
   barangays (snd (approve_barangay_boundary_request (ex_ctx 1 5) ex_db 7)) =
     barangays ex_db @
       [\<lparr> b_id = 500, b_municipality_id = 1, b_name = ''Tunghaan'',
          b_boundary_geojson = Some ''{}'', b_boundary_approved_at = Some 5 \<rparr>] \<and>
   filter (\<lambda>x. pf_id x = 2) (profiles (snd (approve_barangay_boundary_request (ex_ctx 1 5) ex_db 7))) =
     [ex_profile 2 barangay_responder (Some 500) (Some 1)] \<and>
   lgu_barangay_memberships (snd (approve_barangay_boundary_request (ex_ctx 1 5) ex_db 7)) =
     lgu_barangay_memberships ex_db @
       [\<lparr> m_id = 501, m_profile_id = 2, m_barangay_id = 500, m_is_creator = True,
          m_joined_at = 5, m_left_at = None, m_leave_reason = None \<rparr>] \<and>
   approve_barangay_boundary_request (ex_ctx 3 6)
       (snd (approve_barangay_boundary_request (ex_ctx 1 5) ex_db 7)) 7 =
     (Returned False, snd (approve_barangay_boundary_request (ex_ctx 1 5) ex_db 7)) \<and>
   fst (reject_barangay_boundary_request (ex_ctx 3 5) ex_db 7 (Some ''overlaps Linao'')) =
     Returned True \<and>
   approve_barangay_boundary_request (ex_ctx 1 6)
       (snd (reject_barangay_boundary_request (ex_ctx 3 5) ex_db 7 (Some ''overlaps Linao''))) 7 =
     (Returned False,
      snd (reject_barangay_boundary_request (ex_ctx 3 5) ex_db 7 (Some ''overlaps Linao'')))"
proof -
  let ?d' = "snd (approve_barangay_boundary_request (ex_ctx 1 5) ex_db 7)"
  let ?r' = "snd (reject_barangay_boundary_request (ex_ctx 3 5) ex_db 7 (Some ''overlaps Linao''))"
  have np: "\<forall>q \<in> set (barangay_boundary_requests ex_db). rq_id q = 8 \<longrightarrow> rq_status q \<noteq> rq_pending"
    by (simp add: ex_defs)
  have ok1: "fst (approve_barangay_boundary_request (ex_ctx 1 5) ex_db 7) = Returned True"
    by (simp add: review_defs sql_defs session_defs ex_defs)
  then have ok: "approve_barangay_boundary_request (ex_ctx 1 5) ex_db 7 = (Returned True, ?d')"
    by (metis prod.collapse)
  have rj1: "fst (reject_barangay_boundary_request (ex_ctx 3 5) ex_db 7 (Some ''overlaps Linao'')) =
      Returned True"
    by (simp add: review_defs sql_defs session_defs ex_defs)
  then have rj: "reject_barangay_boundary_request (ex_ctx 3 5) ex_db 7 (Some ''overlaps Linao'') =
      (Returned True, ?r')"
    by (metis prod.collapse)
  have fnd: "find (pending_request 7) (barangay_boundary_requests ex_db) =
      Some (ex_request 7 2 1 rq_pending)"
    by (simp add: ex_defs pending_request_def)
  from approve_reject_non_pending_is_no_op
         [where d = ex_db and p = 8 and c = "ex_ctx 1 5" and reason = None] np
  have first: "approve_barangay_boundary_request (ex_ctx 1 5) ex_db 8 = (Returned False, ex_db) \<and>
      reject_barangay_boundary_request (ex_ctx 1 5) ex_db 8 None = (Returned False, ex_db)"
    by blast
  from approve_reject_non_pending_is_no_op
         [where d = ex_db and p = 7 and c = "ex_ctx 1 5" and d' = ?d' and c' = "ex_ctx 3 6"] ok
  obtain v_req v_barangay_id where
        v: "find (pending_request 7) (barangay_boundary_requests ex_db) = Some v_req"
    and b: "v_barangay_id =
             (case rq_barangay_id v_req of Some bid \<Rightarrow> bid | None \<Rightarrow> gen_random_uuid (ex_ctx 1 5) 0)"
    and bs: "barangays ?d' =
           (case rq_barangay_id v_req of
              Some bid \<Rightarrow>
                map (\<lambda>b. if b_id b = bid
                          then b\<lparr> b_boundary_geojson := Some (rq_boundary_geojson v_req),
                                  b_boundary_approved_at := Some (now (ex_ctx 1 5)) \<rparr>
                          else b) (barangays ex_db)
            | None \<Rightarrow>
                barangays ex_db @
                  [\<lparr> b_id = gen_random_uuid (ex_ctx 1 5) 0,
                     b_municipality_id = rq_municipality_id v_req,
                     b_name = rq_barangay_name v_req,
                     b_boundary_geojson = Some (rq_boundary_geojson v_req),
                     b_boundary_approved_at = Some (now (ex_ctx 1 5)) \<rparr>])"
    and ps: "profiles ?d' =
           map (\<lambda>x. if pf_id x = rq_requested_by v_req
                     then x\<lparr> pf_barangay_id := Some v_barangay_id,
                             pf_municipality_id := Some (rq_municipality_id v_req) \<rparr>
                     else x) (profiles ex_db)"
    and ms: "lgu_barangay_memberships ?d' =
           lgu_barangay_memberships ex_db @
             [\<lparr> m_id = gen_random_uuid (ex_ctx 1 5) 1, m_profile_id = rq_requested_by v_req,
                m_barangay_id = v_barangay_id, m_is_creator = True, m_joined_at = now (ex_ctx 1 5),
                m_left_at = None, m_leave_reason = None \<rparr>]"
    and second: "approve_barangay_boundary_request (ex_ctx 3 6) ?d' 7 = (Returned False, ?d')"
    by blast
  from v fnd have req: "v_req = ex_request 7 2 1 rq_pending" by simp
  have vb: "v_barangay_id = 500"
    unfolding b req by (simp add: ex_request_def ex_ctx_def)
  have bs': "barangays ?d' = barangays ex_db @
       [\<lparr> b_id = 500, b_municipality_id = 1, b_name = ''Tunghaan'',
          b_boundary_geojson = Some ''{}'', b_boundary_approved_at = Some 5 \<rparr>]"
    unfolding bs req by (simp add: ex_request_def ex_ctx_def)
  have ps': "filter (\<lambda>x. pf_id x = 2) (profiles ?d') =
     [ex_profile 2 barangay_responder (Some 500) (Some 1)]"
    unfolding ps req vb by (simp add: ex_request_def ex_db_def ex_profile_def)
  have ms': "lgu_barangay_memberships ?d' = lgu_barangay_memberships ex_db @
       [\<lparr> m_id = 501, m_profile_id = 2, m_barangay_id = 500, m_is_creator = True,
          m_joined_at = 5, m_left_at = None, m_leave_reason = None \<rparr>]"
    unfolding ms req vb by (simp add: ex_request_def ex_ctx_def)
  from approve_reject_non_pending_is_no_op
         [where d = ex_db and p = 7 and c = "ex_ctx 3 5" and d' = ?r' and c' = "ex_ctx 1 6"
            and reason = "Some ''overlaps Linao''"] rj
  have third: "approve_barangay_boundary_request (ex_ctx 1 6) ?r' 7 = (Returned False, ?r')"
    by blast
  from first ok1 bs' ps' ms' second rj1 third show ?thesis by simp
qed

section \<open>Who may review a boundary request\<close>

lemma can_review_admin:
  assumes "current_user_role c d = Some r" and "r \<in> {admin, super_admin}"
  shows "can_review c d p = Returned (Some True)"
  using assms by (simp add: can_review_def sql_defs)

lemma can_review_municipal:
  assumes "current_user_role c d = Some municipal_responder"
    and "filter (pending_request p) (barangay_boundary_requests d) = [q]"
  shows "can_review c d p =
           Returned (sql_eq (Some (rq_municipality_id q)) (current_user_municipality_id c d))"
  using assms by (simp add: can_review_def sql_in_def is_true_def scalar_subquery_def sql_eq_def)

lemma review_when_allowed:
  assumes "can_review c d p = Returned v" and "v \<noteq> Some False"
    and "find (pending_request p) (barangay_boundary_requests d) = Some q"
  shows "fst (reject_barangay_boundary_request c d p reason) = Returned True"
    and "fst (approve_barangay_boundary_request c d p) \<in> {Returned True, Raised}"
proof -
  have nt: "\<not> is_true (sql_not v)"
    using assms(2) by (cases v) (simp_all add: is_true_def sql_not_def)
  show "fst (reject_barangay_boundary_request c d p reason) = Returned True"
    by (simp add: reject_barangay_boundary_request_def assms(1,3) nt)
  show "fst (approve_barangay_boundary_request c d p) \<in> {Returned True, Raised}"
    by (simp add: approve_barangay_boundary_request_def assms(1,3) nt split: option.splits)
qed

text \<open>
  An admin or super-admin reviews any pending request.  (An approval that has to create the
  barangay raises when the generated id is taken.)
\<close>

lemma admin_review_any:
  assumes "current_user_role c d = Some r" and "r \<in> {admin, super_admin}"
    and "find (pending_request p) (barangay_boundary_requests d) = Some q"
  shows "fst (reject_barangay_boundary_request c d p reason) = Returned True"
    and "fst (approve_barangay_boundary_request c d p) \<in> {Returned True, Raised}"
proof -
  note cr = can_review_admin [OF assms(1,2), of p]
  show "fst (reject_barangay_boundary_request c d p reason) = Returned True"
    by (rule review_when_allowed(1) [OF cr _ assms(3)]) simp
  show "fst (approve_barangay_boundary_request c d p) \<in> {Returned True, Raised}"
    by (rule review_when_allowed(2) [OF cr _ assms(3)]) simp
qed

text \<open>
  A municipal responder whose municipality is set reviews the pending requests of that
  municipality and no others, and reads exactly the requests of that municipality through
  the municipal policy.
\<close>

lemma municipal_review_own_municipality:
  assumes "current_user_role c d = Some municipal_responder"
    and "current_user_municipality_id c d = Some m"
    and "filter (pending_request p) (barangay_boundary_requests d) = [q]"
    and "rq_municipality_id q = m"
  shows "fst (reject_barangay_boundary_request c d p reason) = Returned True"
    and "fst (approve_barangay_boundary_request c d p) \<in> {Returned True, Raised}"
proof -
  have f: "find (pending_request p) (barangay_boundary_requests d) = Some q"
    by (simp add: find_filter assms(3))
  have cr: "can_review c d p = Returned (Some True)"
    by (simp add: can_review_municipal [OF assms(1,3)] assms(2,4) sql_eq_def)
  show "fst (reject_barangay_boundary_request c d p reason) = Returned True"
    by (rule review_when_allowed(1) [OF cr _ f]) simp
  show "fst (approve_barangay_boundary_request c d p) \<in> {Returned True, Raised}"
    by (rule review_when_allowed(2) [OF cr _ f]) simp
qed

lemma municipal_review_other_municipality:
  assumes "current_user_role c d = Some municipal_responder"
    and "current_user_municipality_id c d = Some m"
    and "filter (pending_request p) (barangay_boundary_requests d) = [q]"
    and "rq_municipality_id q \<noteq> m"
  shows "approve_barangay_boundary_request c d p = (Returned False, d)"
    and "reject_barangay_boundary_request c d p reason = (Returned False, d)"
proof -
  have cr: "can_review c d p = Returned (Some False)"
    by (simp add: can_review_municipal [OF assms(1,3)] assms(2,4) sql_eq_def)
  show "approve_barangay_boundary_request c d p = (Returned False, d)"
    by (simp add: approve_barangay_boundary_request_def cr is_true_def sql_not_def)
  show "reject_barangay_boundary_request c d p reason = (Returned False, d)"
    by (simp add: reject_barangay_boundary_request_def cr is_true_def sql_not_def)
qed

lemma municipal_select_scoped:
  assumes "current_user_role c d = Some municipal_responder"
  shows "is_true (barangay_boundary_requests_select_municipal c d q) \<longleftrightarrow>
           current_user_municipality_id c d = Some (rq_municipality_id q)"
proof (cases "current_user_municipality_id c d")
  case None
  with assms show ?thesis
    by (simp add: barangay_boundary_requests_select_municipal_def sql_and_def sql_eq_def
          is_true_def)
next
  case (Some m)
  with assms show ?thesis
    by (auto simp: barangay_boundary_requests_select_municipal_def sql_and_def sql_eq_def
          is_true_def)
qed

text \<open>
  A municipal responder whose municipality is not set: the comparison in \<open>can_review\<close> is
  NULL, \<open>IF NOT v_can_approve\<close> does not return, and the review goes through for a request
  of any municipality.
\<close>

lemma municipal_review_without_municipality:
  assumes "current_user_role c d = Some municipal_responder"
    and "current_user_municipality_id c d = None"
    and "filter (pending_request p) (barangay_boundary_requests d) = [q]"
  shows "fst (reject_barangay_boundary_request c d p reason) = Returned True"
    and "fst (approve_barangay_boundary_request c d p) \<in> {Returned True, Raised}"
proof -
  have f: "find (pending_request p) (barangay_boundary_requests d) = Some q"
    by (simp add: find_filter assms(3))
  have cr: "can_review c d p = Returned None"
    by (simp add: can_review_municipal [OF assms(1,3)] assms(2) sql_eq_def)
  show "fst (reject_barangay_boundary_request c d p reason) = Returned True"
    by (rule review_when_allowed(1) [OF cr _ f]) simp
  show "fst (approve_barangay_boundary_request c d p) \<in> {Returned True, Raised}"
    by (rule review_when_allowed(2) [OF cr _ f]) simp
qed

text \<open>
  How a municipal responder comes to have no municipality: actor 3, of municipality 1, joins
  barangay 20 and leaves it again; \<open>leave_barangay\<close> clears both the barangay and the
  municipality of the profile.  After that, actor 3 approves request 9 of municipality 2.
\<close>

lemma leave_barangay_clears_municipality_example:
  "(let d1 = snd (join_barangay (ex_ctx 3 5) ex_db 20);
        d2 = snd (leave_barangay (ex_ctx 3 6) d1 ''reassigned'')
    in fst (join_barangay (ex_ctx 3 5) ex_db 20) = Returned True \<and>
       fst (leave_barangay (ex_ctx 3 6) d1 ''reassigned'') = Returned True \<and>
       current_user_role (ex_ctx 3 7) d2 = Some municipal_responder \<and>
       current_user_municipality_id (ex_ctx 3 7) d2 = None \<and>
       fst (approve_barangay_boundary_request (ex_ctx 3 7) d2 9) = Returned True)"
  by (simp add: lifecycle_defs review_defs sql_defs session_defs ex_defs string_defs Let_def)

text \<open>
  C6.  Actor 6 is a municipal responder whose municipality is not set; request 9 is pending
  in municipality 2.  The approval (and likewise the rejection) succeeds and the request
  ends up approved, although the request's municipality is not the responder's.
\<close>

theorem municipal_responder_without_municipality_approves_elsewhere:
  "current_user_role (ex_ctx 6 5) ex_db = Some municipal_responder \<and>
   current_user_municipality_id (ex_ctx 6 5) ex_db = None \<and>
   map rq_municipality_id (filter (pending_request 9) (barangay_boundary_requests ex_db)) = [2] \<and>
   fst (approve_barangay_boundary_request (ex_ctx 6 5) ex_db 9) = Returned True \<and>
   fst (reject_barangay_boundary_request (ex_ctx 6 5) ex_db 9 None) = Returned True \<and>
   map rq_status (filter (\<lambda>q. rq_id q = 9)
     (barangay_boundary_requests (snd (approve_barangay_boundary_request (ex_ctx 6 5) ex_db 9)))) =
     [rq_approved]"
  by (simp add: review_defs sql_defs session_defs ex_defs)


section \<open>Open memberships\<close>

text \<open>
  \<open>join_barangay\<close> tests for an open membership of the caller before it inserts one: a caller
  who has one is refused and nothing changes.
\<close>

lemma join_barangay_refuses_second_membership:
  assumes "auth_uid c = Some u" and "open_memberships d u \<noteq> []"
  shows "join_barangay c d b = (Returned False, d)"
proof -
  from assms(2) obtain m where "m \<in> set (lgu_barangay_memberships d)"
    and "m_profile_id m = u" and "m_left_at m = None"
    by (auto simp: open_memberships_def filter_empty_conv)
  then have "\<exists>m \<in> set (lgu_barangay_memberships d).
               is_true (sql_eq (Some (m_profile_id m)) (auth_uid c)) \<and> m_left_at m = None"
    using assms(1) by (auto simp: is_true_def sql_eq_def)
  then show ?thesis
    by (simp add: join_barangay_def)
qed

text \<open>
  Joining and leaving keep the invariant "at most one open membership for every actor".
\<close>

lemma current_profile_id:
  assumes "current_profile c d = Some me"
  shows "auth_uid c = Some (pf_id me)"
  using assms
  by (auto simp: current_profile_def find_Some_iff split: option.splits)

lemma join_barangay_cases:
  obtains (unchanged) "snd (join_barangay c d b) = d"
  | (joined) me where "current_profile c d = Some me"
      and "\<not> (\<exists>m \<in> set (lgu_barangay_memberships d).
                 is_true (sql_eq (Some (m_profile_id m)) (auth_uid c)) \<and> m_left_at m = None)"
      and "lgu_barangay_memberships (snd (join_barangay c d b)) =
               lgu_barangay_memberships d @
                 [\<lparr> m_id = gen_random_uuid c 0, m_profile_id = pf_id me,
                    m_barangay_id = b, m_is_creator = False,
                    m_joined_at = now c, m_left_at = None, m_leave_reason = None \<rparr>]"
proof (cases "is_true (sql_not (sql_in (current_user_role c d)
                     [lgu_responder, municipal_responder, barangay_responder]))")
  case True
  then have "snd (join_barangay c d b) = d"
    by (simp add: join_barangay_def)
  then show thesis by (rule unchanged)
next
  case g1: False
  show thesis
  proof (cases "\<exists>m \<in> set (lgu_barangay_memberships d).
                 is_true (sql_eq (Some (m_profile_id m)) (auth_uid c)) \<and> m_left_at m = None")
    case True
    then have "snd (join_barangay c d b) = d"
      unfolding join_barangay_def by (simp only: g1 if_False if_True snd_conv)
    then show thesis by (rule unchanged)
  next
    case g2: False
    show thesis
    proof (cases "find (\<lambda>x. b_id x = b \<and> b_boundary_approved_at x \<noteq> None \<and>
                         b_boundary_geojson x \<noteq> None) (barangays d)")
      case None
      have "snd (join_barangay c d b) = d"
        unfolding join_barangay_def by (simp only: g1 g2 None if_False option.case snd_conv)
      then show thesis by (rule unchanged)
    next
      case (Some vb)
      note vb = this
      show thesis
      proof (cases "current_profile c d")
        case None
        have "snd (join_barangay c d b) = d"
          unfolding join_barangay_def by (simp only: g1 g2 vb None if_False option.case snd_conv)
        then show thesis by (rule unchanged)
      next
        case (Some me)
        have "lgu_barangay_memberships (snd (join_barangay c d b)) =
               lgu_barangay_memberships d @
                 [\<lparr> m_id = gen_random_uuid c 0, m_profile_id = pf_id me,
                    m_barangay_id = b, m_is_creator = False,
                    m_joined_at = now c, m_left_at = None, m_leave_reason = None \<rparr>]"
          unfolding join_barangay_def
          by (simp only: g1 g2 vb Some if_False option.case snd_conv) simp
        with Some g2 show thesis by (rule joined)
      qed
    qed
  qed
qed

lemma join_barangay_keeps_single_open_membership:
  assumes "\<forall>x. length (open_memberships d x) \<le> 1"
  shows "\<forall>x. length (open_memberships (snd (join_barangay c d b)) x) \<le> 1"
proof (cases rule: join_barangay_cases [of c d b])
  case unchanged
  with assms show ?thesis by simp
next
  case (joined me)
  have u: "auth_uid c = Some (pf_id me)"
    by (rule current_profile_id [OF joined(1)])
  have empty: "open_memberships d (pf_id me) = []"
    using joined(2) u by (auto simp: open_memberships_def filter_empty_conv is_true_def sql_eq_def)
  show ?thesis
  proof
    fix x
    show "length (open_memberships (snd (join_barangay c d b)) x) \<le> 1"
    proof (cases "x = pf_id me")
      case True
      then show ?thesis
        using empty by (simp add: open_memberships_def joined(3))
    next
      case False
      then have "open_memberships (snd (join_barangay c d b)) x = open_memberships d x"
        by (simp add: open_memberships_def joined(3))
      with assms show ?thesis by simp
    qed
  qed
qed

lemma closing_rows_shrinks:
  "length (filter (\<lambda>m. m_profile_id m = x \<and> m_left_at m = None)
     (map (\<lambda>m. if P m then m\<lparr> m_left_at := Some t, m_leave_reason := r \<rparr> else m) xs)) \<le>
   length (filter (\<lambda>m. m_profile_id m = x \<and> m_left_at m = None) xs)"
  by (induction xs) auto

lemma leave_barangay_memberships:
  "lgu_barangay_memberships (snd (leave_barangay c d reason)) = lgu_barangay_memberships d \<or>
   (\<exists>i. lgu_barangay_memberships (snd (leave_barangay c d reason)) =
        map (\<lambda>m. if m_id m = i
                  then m\<lparr> m_left_at := Some (now c),
                          m_leave_reason := nullif_empty (Some (sql_trim reason)) \<rparr>
                  else m) (lgu_barangay_memberships d))"
proof (cases "is_true (sql_not (sql_in (current_user_role c d)
                     [lgu_responder, municipal_responder, barangay_responder]))")
  case True
  then show ?thesis by (simp add: leave_barangay_def)
next
  case g1: False
  show ?thesis
  proof (cases "find (\<lambda>m. is_true (sql_eq (Some (m_profile_id m)) (auth_uid c)) \<and> m_left_at m = None)
                (lgu_barangay_memberships d)")
    case None
    show ?thesis
      unfolding leave_barangay_def by (simp only: g1 None if_False option.case snd_conv) simp
  next
    case (Some v)
    have "lgu_barangay_memberships (snd (leave_barangay c d reason)) =
        map (\<lambda>m. if m_id m = m_id v
                  then m\<lparr> m_left_at := Some (now c),
                          m_leave_reason := nullif_empty (Some (sql_trim reason)) \<rparr>
                  else m) (lgu_barangay_memberships d)"
      unfolding leave_barangay_def by (simp only: g1 Some if_False option.case snd_conv) simp
    then show ?thesis by blast
  qed
qed

lemma leave_barangay_keeps_single_open_membership:
  assumes "\<forall>x. length (open_memberships d x) \<le> 1"
  shows "\<forall>x. length (open_memberships (snd (leave_barangay c d reason)) x) \<le> 1"
proof
  fix x
  have "length (open_memberships (snd (leave_barangay c d reason)) x) \<le> length (open_memberships d x)"
    using leave_barangay_memberships [of c d reason] closing_rows_shrinks
    by (auto simp: open_memberships_def)
  with assms show "length (open_memberships (snd (leave_barangay c d reason)) x) \<le> 1"
    using le_trans by blast
qed

text \<open>
  C2.  Actor 2, a barangay responder without barangay, submits a boundary request (it gets
  id 400), then joins barangay 21, then an admin approves request 400.  Each call succeeds.
  The approval inserts a membership without looking for an open one, and actor 2 ends up
  with two open memberships.
\<close>

theorem approve_opens_second_membership:
  "length (open_memberships ex_db 2) = 0 \<and>
   (let (r1, d1) = submitBoundaryRequest (ex_ctx 2 4) ex_db 1 None ''Calajoan'' (Some ''{}'')
                     ''lgu@example.ph'' ''09171234567'' None;
        (r2, d2) = join_barangay (ex_ctx 2 5) d1 21;
        (r3, d3) = approve_barangay_boundary_request (ex_ctx 1 6) d2 400
    in r1 = Some 400 \<and> r2 = Returned True \<and> length (open_memberships d2 2) = 1 \<and>
       r3 = Returned True \<and> length (open_memberships d3 2) = 2)"
  by (simp add: lifecycle_defs review_defs sql_defs session_defs ex_defs string_defs Let_def)


section \<open>Login eligibility after signup\<close>

text \<open>
  Whatever a responder signs up with, \<open>handle_new_user\<close> stamps \<open>email_confirmed_at\<close> on the
  new user's row.
\<close>

lemma handle_new_user_confirms_responder:
  assumes "handle_new_user c d NEW meta = (Returned (), d')"
    and "meta_role meta = Valid r"
    and "r \<in> {lgu_responder, municipal_responder, barangay_responder}"
  shows "\<forall>u \<in> set (users d'). u_id u = u_id NEW \<longrightarrow> u_email_confirmed_at u = Some (now c)"
proof -
  from assms have "users d' =
      map (\<lambda>u. if u_id u = u_id NEW then u\<lparr> u_email_confirmed_at := Some (now c) \<rparr> else u) (users d)"
    by (auto simp: handle_new_user_def Let_def split: if_splits)
  then show ?thesis by auto
qed

text \<open>What a successful \<open>handle_new_user\<close> of a responder leaves behind.\<close>

lemma handle_new_user_shape:
  assumes "handle_new_user c d NEW meta = (Returned (), d')"
    and "meta_role meta = Valid r"
    and "r \<in> {lgu_responder, municipal_responder, barangay_responder}"
  shows "users d' = map (\<lambda>u. if u_id u = u_id NEW then u\<lparr> u_email_confirmed_at := Some (now c) \<rparr> else u) (users d)"
    and "u_id NEW \<notin> pf_id ` set (profiles d)"
    and "\<exists>b m. profiles d' = profiles d @
           [\<lparr> pf_id = u_id NEW, pf_role = r, pf_barangay_id = b, pf_municipality_id = m,
              pf_proof_of_employment_url =
                nullif_empty (map_option sql_trim (meta_proof_of_employment_url meta)) \<rparr>]"
  using assms by (auto simp: handle_new_user_def Let_def split: if_splits)

text \<open>Users with another email address contribute no row to the join.\<close>

lemma no_rows_for_other_emails:
  assumes "\<forall>u \<in> set us. u_email u \<noteq> Some e"
  shows "concat (map (\<lambda>u. map (f u)
            (filter (\<lambda>p. pf_id p = u_id u \<and> is_true (sql_eq (u_email u) (Some e)) \<and> P p) ps)) us) = []"
  using assms by (induction us) (auto simp: is_true_def sql_eq_def split: option.splits)

text \<open>
  Hence the eligibility check never reports a responder as proof-pending after signup,
  whatever proof the signup carried: for an email address that no earlier user has, the one
  joined row is the new user's, and it is confirmed.
\<close>

lemma signup_is_never_proof_pending:
  assumes "on_auth_user_created c d NEW meta = (Returned (), d')"
    and "meta_role meta = Valid r"
    and "r \<in> {lgu_responder, municipal_responder, barangay_responder}"
    and "u_email NEW = Some e"
    and "\<forall>u \<in> set (users d). u_email u \<noteq> Some e"
  shows "check_login_eligibility d' e = Returned False"
proof -
  let ?d0 = "d\<lparr> users := users d @ [NEW] \<rparr>"
  let ?conf = "\<lambda>u. if u_id u = u_id NEW then u\<lparr> u_email_confirmed_at := Some (now c) \<rparr> else u"
  from assms(1) have h: "handle_new_user c ?d0 NEW meta = (Returned (), d')"
    by (auto simp: on_auth_user_created_def split: prod.splits rpc.splits)
  note sh = handle_new_user_shape [OF h assms(2,3)]
  from sh(3) obtain b m where ps: "profiles d' = profiles d @
           [\<lparr> pf_id = u_id NEW, pf_role = r, pf_barangay_id = b, pf_municipality_id = m,
              pf_proof_of_employment_url =
                nullif_empty (map_option sql_trim (meta_proof_of_employment_url meta)) \<rparr>]"
    by auto
  have us: "users d' = map ?conf (users d) @ [NEW\<lparr> u_email_confirmed_at := Some (now c) \<rparr>]"
    using sh(1) by simp
  have old: "\<forall>u \<in> set (map ?conf (users d)). u_email u \<noteq> Some e"
    using assms(5) by auto
  have fresh: "filter (\<lambda>p. pf_id p = u_id NEW \<and> Q p) (profiles d) = []" for Q
  proof -
    have nf: "u_id NEW \<notin> pf_id ` set (profiles d)" using sh(2) by simp
    have "pf_id p \<noteq> u_id NEW" if "p \<in> set (profiles d)" for p
    proof
      assume "pf_id p = u_id NEW"
      with that have "u_id NEW \<in> pf_id ` set (profiles d)" by (metis imageI)
      with nf show False ..
    qed
    hence "\<forall>p \<in> set (profiles d). \<not> (pf_id p = u_id NEW \<and> Q p)" by blast
    thus ?thesis unfolding filter_empty_conv .
  qed
  let ?np = "\<lparr> pf_id = u_id NEW, pf_role = r, pf_barangay_id = b, pf_municipality_id = m,
              pf_proof_of_employment_url =
                nullif_empty (map_option sql_trim (meta_proof_of_employment_url meta)) \<rparr>"
  let ?NEW = "NEW\<lparr> u_email_confirmed_at := Some (now c) \<rparr>"
  let ?val = "\<lambda>u p. Some (pf_proof_of_employment_url p \<noteq> None \<and> u_email_confirmed_at u = None)"
  let ?match = "\<lambda>u p. pf_id p = u_id u \<and> is_true (sql_eq (u_email u) (Some e)) \<and>
                   pf_role p \<in> {lgu_responder, municipal_responder, barangay_responder}"
  have rows_old: "concat (map (\<lambda>u. map (?val u) (filter (?match u) (profiles d')))
                    (map ?conf (users d))) = []"
    by (rule no_rows_for_other_emails [OF old])
  have "filter (?match ?NEW) (profiles d) = []"
    using fresh [of "\<lambda>p. is_true (sql_eq (u_email ?NEW) (Some e)) \<and>
                   pf_role p \<in> {lgu_responder, municipal_responder, barangay_responder}"]
    by simp
  hence rows_new: "filter (?match ?NEW) (profiles d') = [?np]"
    using assms(3,4) unfolding ps by (simp add: is_true_def sql_eq_def)
  have "concat (map (\<lambda>u. map (?val u) (filter (?match u) (profiles d'))) (users d'))
          = [Some False]"
    unfolding us map_append concat_append rows_old
    by (simp only: list.map concat.simps rows_new append_Nil append_Nil2) simp
  thus ?thesis
    unfolding check_login_eligibility_def by (simp add: scalar_subquery_def)
qed

text \<open>
  C3.  A municipal responder signs up with a proof of employment; nobody has verified it.
  The profile has the proof URL, the user row is already confirmed, the eligibility check
  answers "not pending", and the login page goes on to the password sign-in.  Had the row
  been left unconfirmed, the same check would answer "pending" and the login would stop.
\<close>

theorem signup_with_proof_is_not_proof_pending:
  "(let d1 = snd (on_auth_user_created (ex_guest 5) ex_db ex_new_user ex_new_meta) in
      fst (on_auth_user_created (ex_guest 5) ex_db ex_new_user ex_new_meta) = Returned () \<and>
      map pf_proof_of_employment_url (filter (\<lambda>p. pf_id p = 70) (profiles d1)) =
        [Some ''https://storage.example/proof.jpg''] \<and>
      map u_email_confirmed_at (users d1) = [Some 5] \<and>
      check_login_eligibility d1 ''new@lgu.ph'' = Returned False \<and>
      handleLogin d1 True ''new@lgu.ph'' = SignInWithPassword \<and>
      check_login_eligibility (d1\<lparr> users := [ex_new_user] \<rparr>) ''new@lgu.ph'' = Returned True \<and>
      handleLogin (d1\<lparr> users := [ex_new_user] \<rparr>) True ''new@lgu.ph'' = ProofPendingNotice)"
  by (simp add: lifecycle_defs sql_defs session_defs ex_defs string_defs Let_def)


section \<open>Reading hazard reports\<close>

text \<open>
  C1 (as amended).  Every hazard report, whatever its status, is readable by every actor,
  guests included: the policy \<open>reports_select_public\<close> admits every row.  The policies that
  preceded it grant a pending report to exactly the reporter, the responders scoped to its
  barangay or municipality and the admins, and grant a report that is no longer pending
  (acknowledged, resolved) to everyone.
\<close>

theorem reports_select_is_public:
  "reports_select c d r \<and>
   (r_status r = pending \<longrightarrow>
      reports_select_before_public c d r = spec_pending_report_reader c d r) \<and>
   (r_status r \<noteq> pending \<longrightarrow> reports_select_before_public c d r)"
proof (intro conjI impI)
  show "reports_select c d r"
    by (simp add: reports_select_def reports_select_public_def is_true_def)
next
  assume "r_status r \<noteq> pending"
  then show "reports_select_before_public c d r"
    by (cases "r_status r")
       (simp_all add: reports_select_before_public_def reports_select_verified_any_def
          sql_in_def is_true_def)
next
  assume p: "r_status r = pending"
  show "reports_select_before_public c d r = spec_pending_report_reader c d r"
  proof (cases "auth_uid c")
    case None
    with p show ?thesis
      by (simp add: report_policy_defs session_defs sql_defs)
  next
    case (Some u)
    note u = this
    show ?thesis
    proof (cases "find (\<lambda>p. pf_id p = u) (profiles d)")
      case None
      with p u show ?thesis
        by (auto simp: report_policy_defs session_defs sql_defs)
    next
      case (Some pr)
      with p u show ?thesis
        by (cases "pf_role pr"; cases "pf_barangay_id pr"; cases "pf_municipality_id pr")
           (auto simp: report_policy_defs session_defs sql_defs)
    qed
  qed
qed

theorem reports_select_is_public_witness:
  "r_status ex_report = pending \<and>
   reports_select (ex_ctx 5 9) ex_db ex_report \<and>
   \<not> reports_select_before_public (ex_ctx 5 9) ex_db ex_report \<and>
   reports_select_before_public (ex_ctx 3 9) ex_db ex_report \<and>
   r_status (ex_report\<lparr> r_status := acknowledged \<rparr>) \<noteq> pending \<and>
   reports_select_before_public (ex_ctx 5 9) ex_db (ex_report\<lparr> r_status := acknowledged \<rparr>)"
proof -
  have p: "r_status ex_report = pending"
    by (simp add: ex_defs)
  have a: "r_status (ex_report\<lparr> r_status := acknowledged \<rparr>) \<noteq> pending"
    by simp
  have n5: "\<not> spec_pending_report_reader (ex_ctx 5 9) ex_db ex_report"
    by (simp add: spec_pending_report_reader_def session_defs ex_defs)
  have y3: "spec_pending_report_reader (ex_ctx 3 9) ex_db ex_report"
    by (simp add: spec_pending_report_reader_def session_defs ex_defs)
  from reports_select_is_public [of "ex_ctx 5 9" ex_db ex_report]
       reports_select_is_public [of "ex_ctx 3 9" ex_db ex_report]
       reports_select_is_public [of "ex_ctx 5 9" ex_db "ex_report\<lparr> r_status := acknowledged \<rparr>"]
       p a n5 y3
  show ?thesis by blast
qed

text \<open>
  The claim as written fails: report 60 is pending, actor 5 (a resident who did not file it)
  and a guest are neither reporter nor scoped responder nor admin, and both can read it.
\<close>

theorem pending_report_visible_to_unscoped_counterexample:
  "r_status ex_report = pending \<and>
   \<not> spec_pending_report_reader (ex_ctx 5 9) ex_db ex_report \<and>
   reports_select (ex_ctx 5 9) ex_db ex_report \<and>
   \<not> spec_pending_report_reader (ex_guest 9) ex_db ex_report \<and>
   reports_select (ex_guest 9) ex_db ex_report"
  by (simp add: report_policy_defs session_defs sql_defs ex_defs)


section \<open>Assistance offers: creation\<close>

lemma insert_self_assistance_refused:
  assumes "ao_helping_barangay_id ofr = Some (ao_recipient_barangay_id ofr)"
  shows "fst (fst (insert_barangay_assistance_offer c d ofr)) = None \<and>
         snd (fst (insert_barangay_assistance_offer c d ofr)) \<noteq> None \<and>
         snd (insert_barangay_assistance_offer c d ofr) = d"
proof -
  have chk: "no_self_assistance ofr = Some False"
    using assms by (simp add: no_self_assistance_def sql_defs)
  show ?thesis
    by (simp add: insert_barangay_assistance_offer_def chk)
qed

lemma create_self_assistance_refused:
  assumes "find (\<lambda>p. pf_id p = userId \<and> profiles_select c d p) (profiles d) = Some p"
    and "\<not> (pf_role p = municipal_responder \<and> pf_municipality_id p \<noteq> None)"
    and "pf_barangay_id p = Some recipientBarangayId"
  shows "fst (fst (createAssistanceOffer c d recipientBarangayId description userId options)) = None \<and>
         snd (fst (createAssistanceOffer c d recipientBarangayId description userId options)) \<noteq> None \<and>
         snd (createAssistanceOffer c d recipientBarangayId description userId options) = d"
proof (cases "pf_role p = municipal_responder")
  case True
  with assms(2) have "pf_municipality_id p = None" by simp
  with assms(1,3) show ?thesis
    by (simp add: createAssistanceOffer_def Let_def)
next
  case False
  with assms(1,3) show ?thesis
    by (simp add: createAssistanceOffer_def Let_def)
qed

lemma insert_offer_rows:
  "\<forall>x \<in> set (barangay_assistance_offers (snd (insert_barangay_assistance_offer c d ofr))).
     x \<in> set (barangay_assistance_offers d) \<or>
     ao_helping_barangay_id x \<noteq> Some (ao_recipient_barangay_id x)"
proof (cases "ao_helping_barangay_id ofr = Some (ao_recipient_barangay_id ofr)")
  case True
  then show ?thesis
    using insert_self_assistance_refused [of ofr c d] by simp
next
  case False
  then show ?thesis
    by (simp add: insert_barangay_assistance_offer_def)
qed

lemma create_offer_inserts_payload:
  "snd (createAssistanceOffer c d r description u options) = d \<or>
   snd (createAssistanceOffer c d r description u options) =
     snd (insert_barangay_assistance_offer c d
            (createAssistanceOffer_payload c d r description u options))"
  by (simp add: createAssistanceOffer_def Let_def)

lemma create_offer_rows:
  "\<forall>x \<in> set (barangay_assistance_offers (snd (createAssistanceOffer c d r description u options))).
     x \<in> set (barangay_assistance_offers d) \<or>
     ao_helping_barangay_id x \<noteq> Some (ao_recipient_barangay_id x)"
  using create_offer_inserts_payload [of c d r description u options]
        insert_offer_rows [of c d "createAssistanceOffer_payload c d r description u options"]
  by auto

text \<open>
  C10.  When the helper is a barangay (the caller is not a municipal responder acting for a
  municipality) and the caller's barangay is the recipient, \<open>createAssistanceOffer\<close> returns
  no id and an error and leaves the table as it is.  The store enforces the same: an insert
  of a row whose helping barangay is its recipient is refused, whoever sends it.  So no call
  of \<open>createAssistanceOffer\<close>, by any caller, adds a row whose helping barangay is its
  recipient.
\<close>

theorem self_assistance_is_refused:
  "(find (\<lambda>p. pf_id p = userId \<and> profiles_select c d p) (profiles d) = Some p \<and>
    \<not> (pf_role p = municipal_responder \<and> pf_municipality_id p \<noteq> None) \<and>
    pf_barangay_id p = Some recipientBarangayId \<longrightarrow>
      fst (fst (createAssistanceOffer c d recipientBarangayId description userId options)) = None \<and>
      snd (fst (createAssistanceOffer c d recipientBarangayId description userId options)) \<noteq> None \<and>
      snd (createAssistanceOffer c d recipientBarangayId description userId options) = d)
   \<and>
   (ao_helping_barangay_id ofr = Some (ao_recipient_barangay_id ofr) \<longrightarrow>
      fst (fst (insert_barangay_assistance_offer c d ofr)) = None \<and>
      snd (fst (insert_barangay_assistance_offer c d ofr)) \<noteq> None \<and>
      snd (insert_barangay_assistance_offer c d ofr) = d)
   \<and>
   (\<forall>x \<in> set (barangay_assistance_offers
                 (snd (createAssistanceOffer c d recipientBarangayId description userId options))).
      x \<in> set (barangay_assistance_offers d) \<or>
      ao_helping_barangay_id x \<noteq> Some (ao_recipient_barangay_id x))"
  using create_self_assistance_refused [of userId c d p recipientBarangayId description options]
        insert_self_assistance_refused [of ofr c d]
        create_offer_rows [of c d recipientBarangayId description userId options]
  by blast

theorem self_assistance_is_refused_witness:
  "createAssistanceOffer (ex_ctx 4 9) ex_db 20 ''rice and water'' 4 None =
     ((None, Some ''You cannot offer assistance to your own barangay.''), ex_db) \<and>
   fst (fst (insert_barangay_assistance_offer (ex_ctx 1 9) ex_db
     \<lparr> ao_id = 900, ao_helping_barangay_id = Some 20, ao_helping_municipality_id = None,
       ao_recipient_barangay_id = 20, ao_status_update_id = None,
       ao_description = ''rice and water'', ao_assistance_image_url = None,
       ao_expected_arrival_at = None, ao_delivered_at = None, ao_created_by = 1 \<rparr>)) = None"
proof -
  let ?p = "ex_profile 4 barangay_responder (Some 20) (Some 1)"
  let ?ofr = "\<lparr> ao_id = 900, ao_helping_barangay_id = Some 20, ao_helping_municipality_id = None,
       ao_recipient_barangay_id = 20, ao_status_update_id = None,
       ao_description = ''rice and water'', ao_assistance_image_url = None,
       ao_expected_arrival_at = None, ao_delivered_at = None, ao_created_by = 1 \<rparr>"
  have f: "find (\<lambda>p. pf_id p = 4 \<and> profiles_select (ex_ctx 4 9) ex_db p) (profiles ex_db) = Some ?p"
    by (simp add: profiles_select_def sql_defs ex_defs)
  have m: "\<not> (pf_role ?p = municipal_responder \<and> pf_municipality_id ?p \<noteq> None)"
    by (simp add: ex_defs)
  have b: "pf_barangay_id ?p = Some 20"
    by (simp add: ex_defs)
  have h: "ao_helping_barangay_id ?ofr = Some (ao_recipient_barangay_id ?ofr)"
    by simp
  have msg: "createAssistanceOffer (ex_ctx 4 9) ex_db 20 ''rice and water'' 4 None =
     ((None, Some ''You cannot offer assistance to your own barangay.''), ex_db)"
    by (simp add: createAssistanceOffer_def Let_def f string_defs ex_profile_def)
  from self_assistance_is_refused
         [where userId = 4 and c = "ex_ctx 4 9" and d = ex_db and p = ?p
            and recipientBarangayId = 20 and description = "''rice and water''"
            and options = None and ofr = ?ofr] f m b
       self_assistance_is_refused
         [where userId = 4 and c = "ex_ctx 1 9" and d = ex_db and p = ?p
            and recipientBarangayId = 20 and description = "''rice and water''"
            and options = None and ofr = ?ofr] h
  have "fst (fst (createAssistanceOffer (ex_ctx 4 9) ex_db 20 ''rice and water'' 4 None)) = None \<and>
        fst (fst (insert_barangay_assistance_offer (ex_ctx 1 9) ex_db ?ofr)) = None"
    by blast
  with msg show ?thesis by simp
qed

lemma session_ignores_status_log:
  "current_profile c (d\<lparr> barangay_status_updates := s \<rparr>) = current_profile c d"
  by (simp add: current_profile_def split: option.splits)

lemma profiles_select_ignores_status_log:
  "profiles_select c (d\<lparr> barangay_status_updates := s \<rparr>) p = profiles_select c d p"
  by (simp add: profiles_select_def profiles_select_same_barangay_lgu_def current_user_role_def
        current_user_barangay_id_def current_user_municipality_id_def session_ignores_status_log)

lemma insert_offer_ignores_status_log:
  assumes "ao_status_update_id ofr = None"
  shows "fst (insert_barangay_assistance_offer c (d\<lparr> barangay_status_updates := s \<rparr>) ofr) =
         fst (insert_barangay_assistance_offer c d ofr)"
  using assms
  by (simp add: insert_barangay_assistance_offer_def assistance_insert_lgu_def
        assistance_insert_admin_def current_user_role_def current_user_barangay_id_def
        current_user_municipality_id_def session_ignores_status_log references_def)

lemma payload_ignores_status_log:
  "createAssistanceOffer_payload c (d\<lparr> barangay_status_updates := s \<rparr>) r description u options =
   createAssistanceOffer_payload c d r description u options"
  by (simp add: createAssistanceOffer_payload_def profiles_select_ignores_status_log)

lemma payload_status_update_id:
  "ao_status_update_id (createAssistanceOffer_payload c d r description u options) =
     Option.bind options oo_statusUpdateId"
  by (simp add: createAssistanceOffer_payload_def Let_def)

lemma create_ignores_status_log:
  assumes "Option.bind options oo_statusUpdateId = None"
  shows "fst (createAssistanceOffer c (d\<lparr> barangay_status_updates := s \<rparr>) r description u options) =
         fst (createAssistanceOffer c d r description u options)"
proof (cases "find (\<lambda>p. pf_id p = u \<and> profiles_select c d p) (profiles d)")
  case None
  with assms show ?thesis
    by (simp add: createAssistanceOffer_def Let_def profiles_select_ignores_status_log
          insert_offer_ignores_status_log payload_ignores_status_log payload_status_update_id)
next
  case (Some p)
  with assms show ?thesis
    by (cases "pf_role p = municipal_responder"; cases "pf_municipality_id p";
        cases "pf_barangay_id p")
       (simp_all add: createAssistanceOffer_def Let_def profiles_select_ignores_status_log
          insert_offer_ignores_status_log payload_ignores_status_log payload_status_update_id)
qed

lemma isNeedStatus_iff:
  "isNeedStatus st \<longleftrightarrow>
     st \<in> {''in_need_of_resources'', ''in_need_of_manpower'', ''active_disaster'', ''on_alert'',
           ''under_threat''}"
  by (auto simp: isNeedStatus_def NEED_STATUSES_def LEGACY_NEED_STATUSES_def status_text_def)

text \<open>
  C4 (as amended).  \<open>createAssistanceOffer\<close> does not look at the recipient's status: for an
  offer that names no status update, its outcome is the same whatever the status log holds.
  The condition on the status is a gate of the dashboard: the popup of a barangay shows
  "Provide Assistance" only to a signed-in responder, for a barangay that is not the
  viewer's own and whose current status is, by \<open>isNeedStatus\<close>, one of
  in_need_of_resources, in_need_of_manpower, active_disaster or the legacy on_alert and
  under_threat.
\<close>

theorem assistance_need_gate_is_in_dashboard:
  "(Option.bind options oo_statusUpdateId = None \<longrightarrow>
      fst (createAssistanceOffer c (d\<lparr> barangay_status_updates := s \<rparr>) r description u options) =
      fst (createAssistanceOffer c d r description u options))
   \<and>
   (provide_assistance_button mode lguUserId lguBarangayInfo b st \<longrightarrow>
      mode = lgu \<and> lguUserId \<noteq> None \<and> lguBarangayInfo \<noteq> Some b \<and>
      st \<in> {''in_need_of_resources'', ''in_need_of_manpower'', ''active_disaster'', ''on_alert'',
            ''under_threat''})"
proof (intro conjI impI)
  assume "Option.bind options oo_statusUpdateId = None"
  then show "fst (createAssistanceOffer c (d\<lparr> barangay_status_updates := s \<rparr>) r description u options) =
      fst (createAssistanceOffer c d r description u options)"
    by (rule create_ignores_status_log)
next
  assume "provide_assistance_button mode lguUserId lguBarangayInfo b st"
  then have g: "mode = lgu" "lguUserId \<noteq> None" "lguBarangayInfo \<noteq> Some b" "isNeedStatus st"
    by (auto simp: dashboard_defs)
  from g show "mode = lgu" by simp
  from g show "lguUserId \<noteq> None" by simp
  from g show "lguBarangayInfo \<noteq> Some b" by simp
  from g show "st \<in> {''in_need_of_resources'', ''in_need_of_manpower'', ''active_disaster'',
                       ''on_alert'', ''under_threat''}"
    by (simp only: isNeedStatus_iff)
qed

theorem assistance_need_gate_is_in_dashboard_witness:
  "fst (createAssistanceOffer (ex_ctx 4 9) ex_db_normal 21 ''rice and water'' 4 None) =
     fst (createAssistanceOffer (ex_ctx 4 9) ex_db 21 ''rice and water'' 4 None) \<and>
   provide_assistance_button lgu (Some 4) (Some 20) 21 ''active_disaster'' \<and>
   \<not> provide_assistance_button lgu (Some 4) (Some 20) 21 ''normal''"
proof -
  have o: "Option.bind (None :: offer_options option) oo_statusUpdateId = None"
    by simp
  have y: "provide_assistance_button lgu (Some 4) (Some 20) 21 ''active_disaster''"
    by (simp add: dashboard_defs status_defs)
  have n: "\<not> provide_assistance_button lgu (Some 4) (Some 20) 21 ''normal''"
    by (simp add: dashboard_defs status_defs)
  from assistance_need_gate_is_in_dashboard
         [where options = None and c = "ex_ctx 4 9" and d = ex_db and s = "[ex_status_row]"
            and r = 21 and description = "''rice and water''" and u = 4 and mode = lgu
            and lguUserId = "Some 4" and lguBarangayInfo = "Some 20" and b = 21
            and st = "''active_disaster''"] o y n
  show ?thesis
    by (simp add: ex_db_normal_def)
qed

text \<open>
  The claim as written fails: barangay 21's current status is "normal", and actor 4, a
  responder of barangay 20, creates an offer for it.
\<close>

theorem offer_to_normal_barangay_counterexample:
  "status_rows_answer ex_db_normal [20, 21, 30] [ex_status_row] \<and>
   map bws_status (fetchBarangaysWithStatus ex_db_normal [ex_status_row]) =
     [normal, normal, normal] \<and>
   map bws_id (fetchBarangaysWithStatus ex_db_normal [ex_status_row]) = [20, 21, 30] \<and>
   \<not> isNeedStatus (status_text normal) \<and>
   fst (createAssistanceOffer (ex_ctx 4 9) ex_db_normal 21 ''rice and water'' 4 None) =
     (Some 900, None) \<and>
   map ao_recipient_barangay_id
     (barangay_assistance_offers
        (snd (createAssistanceOffer (ex_ctx 4 9) ex_db_normal 21 ''rice and water'' 4 None))) = [21]"
  by (simp add: status_defs assistance_defs sql_defs session_defs ex_defs string_defs Let_def)


section \<open>Assistance offers: delivery\<close>

lemma assistance_update_own_iff:
  "is_true (assistance_update_own c d ofr) = spec_helping_party c d ofr"
proof (cases "current_profile c d")
  case None
  then show ?thesis
    by (simp add: assistance_update_own_def spec_helping_party_def current_user_role_def
          current_user_barangay_id_def current_user_municipality_id_def sql_defs)
next
  case (Some p)
  then show ?thesis
    by (cases "pf_role p"; cases "pf_barangay_id p"; cases "pf_municipality_id p";
        cases "ao_helping_barangay_id ofr"; cases "ao_helping_municipality_id ofr")
       (auto simp: assistance_update_own_def spec_helping_party_def current_user_role_def
          current_user_barangay_id_def current_user_municipality_id_def sql_defs)
qed

lemma mark_delivered_rows:
  "list_all2 (\<lambda>ofr ofr'. ofr' = ofr \<or>
       (ao_id ofr = offerId \<and> spec_helping_party c d ofr \<and>
        ofr' = ofr\<lparr> ao_delivered_at := Some (now c) \<rparr>))
     (barangay_assistance_offers d)
     (barangay_assistance_offers (snd (markAssistanceDelivered c d offerId)))"
  by (simp add: markAssistanceDelivered_def list_all2_map2 assistance_update_own_iff
        list_all2_same)

lemma mark_delivered_not_helping_party:
  assumes "\<forall>ofr \<in> set (barangay_assistance_offers d).
             ao_id ofr = offerId \<longrightarrow> \<not> spec_helping_party c d ofr"
  shows "markAssistanceDelivered c d offerId = (None, d)"
proof -
  have "map (\<lambda>ofr. if ao_id ofr = offerId \<and> is_true (assistance_update_own c d ofr)
                     then ofr\<lparr> ao_delivered_at := Some (now c) \<rparr> else ofr)
            (barangay_assistance_offers d) = barangay_assistance_offers d"
  proof (rule map_idI)
    fix ofr
    assume "ofr \<in> set (barangay_assistance_offers d)"
    with assms have "\<not> (ao_id ofr = offerId \<and> is_true (assistance_update_own c d ofr))"
      unfolding assistance_update_own_iff by blast
    then show "(if ao_id ofr = offerId \<and> is_true (assistance_update_own c d ofr)
                then ofr\<lparr> ao_delivered_at := Some (now c) \<rparr> else ofr) = ofr"
      by (rule if_not_P)
  qed
  then show ?thesis
    by (simp add: markAssistanceDelivered_def)
qed

lemma mark_delivered_keeps_delivered:
  "list_all2 (\<lambda>ofr ofr'. ao_delivered_at ofr \<noteq> None \<longrightarrow> ao_delivered_at ofr' \<noteq> None)
     (barangay_assistance_offers d)
     (barangay_assistance_offers (snd (markAssistanceDelivered c d offerId)))"
  by (simp add: markAssistanceDelivered_def list_all2_map2 list_all2_same)

lemma mark_delivered_overwrites:
  assumes "ofr \<in> set (barangay_assistance_offers d)" and "ao_id ofr = offerId"
    and "spec_helping_party c d ofr"
  shows "ofr\<lparr> ao_delivered_at := Some (now c) \<rparr> \<in>
           set (barangay_assistance_offers (snd (markAssistanceDelivered c d offerId)))"
proof -
  let ?f = "\<lambda>ofr. if ao_id ofr = offerId \<and> is_true (assistance_update_own c d ofr)
                   then ofr\<lparr> ao_delivered_at := Some (now c) \<rparr> else ofr"
  have "?f ofr = ofr\<lparr> ao_delivered_at := Some (now c) \<rparr>"
    using assms(2,3) by (simp add: assistance_update_own_iff)
  moreover have "?f ofr \<in> ?f ` set (barangay_assistance_offers d)"
    using assms(1) by (rule imageI)
  ultimately show ?thesis
    by (simp add: markAssistanceDelivered_def)
qed

text \<open>
  C7 (as amended).  \<open>markAssistanceDelivered\<close> changes nothing but \<open>delivered_at\<close>, and only on
  offers for which the caller is the helping party; for any other caller the table stays as
  it is.  It always writes a timestamp, so a delivered offer never becomes undelivered.  It
  does not test whether \<open>delivered_at\<close> is already set: each call by the helping party
  writes the caller's current time.  The dashboard offers "Mark delivered" only while
  \<open>deliveredAt\<close> is null.
\<close>

theorem delivered_at_written_by_helping_party_only:
  "list_all2 (\<lambda>ofr ofr'. ofr' = ofr \<or>
       (ao_id ofr = offerId \<and> spec_helping_party c d ofr \<and>
        ofr' = ofr\<lparr> ao_delivered_at := Some (now c) \<rparr>))
     (barangay_assistance_offers d)
     (barangay_assistance_offers (snd (markAssistanceDelivered c d offerId))) \<and>
   list_all2 (\<lambda>ofr ofr'. ao_delivered_at ofr \<noteq> None \<longrightarrow> ao_delivered_at ofr' \<noteq> None)
     (barangay_assistance_offers d)
     (barangay_assistance_offers (snd (markAssistanceDelivered c d offerId))) \<and>
   ((\<forall>ofr \<in> set (barangay_assistance_offers d).
        ao_id ofr = offerId \<longrightarrow> \<not> spec_helping_party c d ofr) \<longrightarrow>
      markAssistanceDelivered c d offerId = (None, d)) \<and>
   (\<forall>ofr \<in> set (barangay_assistance_offers d).
      ao_id ofr = offerId \<and> spec_helping_party c d ofr \<longrightarrow>
        ofr\<lparr> ao_delivered_at := Some (now c) \<rparr> \<in>
          set (barangay_assistance_offers (snd (markAssistanceDelivered c d offerId)))) \<and>
   (mark_delivered_button lguBarangayInfo lguMunicipalityId shown \<longrightarrow>
      ao_delivered_at shown = None)"
proof (intro conjI ballI impI)
  show "list_all2 (\<lambda>ofr ofr'. ofr' = ofr \<or>
       (ao_id ofr = offerId \<and> spec_helping_party c d ofr \<and>
        ofr' = ofr\<lparr> ao_delivered_at := Some (now c) \<rparr>))
     (barangay_assistance_offers d)
     (barangay_assistance_offers (snd (markAssistanceDelivered c d offerId)))"
    by (rule mark_delivered_rows)
  show "list_all2 (\<lambda>ofr ofr'. ao_delivered_at ofr \<noteq> None \<longrightarrow> ao_delivered_at ofr' \<noteq> None)
     (barangay_assistance_offers d)
     (barangay_assistance_offers (snd (markAssistanceDelivered c d offerId)))"
    by (rule mark_delivered_keeps_delivered)
next
  assume "\<forall>ofr \<in> set (barangay_assistance_offers d).
            ao_id ofr = offerId \<longrightarrow> \<not> spec_helping_party c d ofr"
  then show "markAssistanceDelivered c d offerId = (None, d)"
    by (rule mark_delivered_not_helping_party)
next
  fix ofr
  assume "ofr \<in> set (barangay_assistance_offers d)"
    and "ao_id ofr = offerId \<and> spec_helping_party c d ofr"
  then show "ofr\<lparr> ao_delivered_at := Some (now c) \<rparr> \<in>
          set (barangay_assistance_offers (snd (markAssistanceDelivered c d offerId)))"
    using mark_delivered_overwrites by blast
next
  assume "mark_delivered_button lguBarangayInfo lguMunicipalityId shown"
  then show "ao_delivered_at shown = None"
    by (simp add: mark_delivered_button_def)
qed

theorem delivered_at_written_by_helping_party_only_witness:
  "\<not> spec_helping_party (ex_ctx 3 11) ex_db_offer ex_offer \<and>
   markAssistanceDelivered (ex_ctx 3 11) ex_db_offer 90 = (None, ex_db_offer) \<and>
   mark_delivered_button (Some 20) None ex_offer \<and>
   ao_delivered_at ex_offer = None"
proof -
  have n: "\<not> spec_helping_party (ex_ctx 3 11) ex_db_offer ex_offer"
    by (simp add: spec_helping_party_def session_defs ex_defs)
  then have a: "\<forall>ofr \<in> set (barangay_assistance_offers ex_db_offer).
                  ao_id ofr = 90 \<longrightarrow> \<not> spec_helping_party (ex_ctx 3 11) ex_db_offer ofr"
    by (simp add: ex_db_offer_def)
  have b: "mark_delivered_button (Some 20) None ex_offer"
    by (simp add: dashboard_defs ex_defs)
  from delivered_at_written_by_helping_party_only
         [where c = "ex_ctx 3 11" and d = ex_db_offer and offerId = 90
            and lguBarangayInfo = "Some 20" and lguMunicipalityId = None and shown = ex_offer]
       a b n
  show ?thesis by blast
qed

text \<open>
  The claim as written fails: actor 4, of the helping barangay 20, marks offer 90 delivered
  at time 10 and again at time 11, and the stored timestamp changes from 10 to 11.
\<close>

theorem delivered_at_overwritten_counterexample:
  "spec_helping_party (ex_ctx 4 10) ex_db_offer ex_offer \<and>
   map ao_delivered_at
     (barangay_assistance_offers (snd (markAssistanceDelivered (ex_ctx 4 10) ex_db_offer 90))) =
     [Some 10] \<and>
   map ao_delivered_at
     (barangay_assistance_offers
        (snd (markAssistanceDelivered (ex_ctx 4 11)
                (snd (markAssistanceDelivered (ex_ctx 4 10) ex_db_offer 90)) 90))) =
     [Some 11]"
  by (simp add: spec_helping_party_def assistance_defs sql_defs session_defs ex_defs)


section \<open>Barangay status updates\<close>

lemma length_js_trim_le: "length (js_trim t) \<le> length t"
proof -
  have "length (dropWhile js_whitespace (rev (dropWhile js_whitespace t))) \<le>
          length (rev (dropWhile js_whitespace t))"
    by (rule length_dropWhile_le)
  also have "\<dots> \<le> length t"
    by (simp add: length_dropWhile_le)
  finally show ?thesis
    by (simp add: js_trim_def)
qed

lemma latestByBarangay_fold:
  "foldl (\<lambda>m s. case m (su_barangay_id s) of None \<Rightarrow> m(su_barangay_id s \<mapsto> s) | Some _ \<Rightarrow> m)
         m rows b =
     (case m b of Some x \<Rightarrow> Some x | None \<Rightarrow> find (\<lambda>s. su_barangay_id s = b) rows)"
proof (induction rows arbitrary: m)
  case Nil
  then show ?case by (simp split: option.splits)
next
  case (Cons s rows)
  show ?case
    by (simp add: Cons.IH split: option.splits)
qed

text \<open>The loop keeps, for a barangay, the first of its rows in the answer.\<close>

lemma latestByBarangay_find:
  "latestByBarangay rows b = find (\<lambda>s. su_barangay_id s = b) rows"
  by (simp add: latestByBarangay_def latestByBarangay_fold)

lemma find_latest:
  assumes "sorted_wrt (\<lambda>s t. su_created_at t \<le> su_created_at s) rows"
    and "x \<in> set rows" and "P x"
    and "\<forall>s \<in> set rows. P s \<and> s \<noteq> x \<longrightarrow> su_created_at s < su_created_at x"
  shows "find P rows = Some x"
  using assms
proof (induction rows)
  case Nil
  then show ?case by simp
next
  case (Cons y ys)
  show ?case
  proof (cases "y = x")
    case True
    with Cons.prems(3) show ?thesis by simp
  next
    case False
    with Cons.prems(2) have xin: "x \<in> set ys" by simp
    have "\<not> P y"
    proof
      assume "P y"
      with False Cons.prems(4) have "su_created_at y < su_created_at x" by simp
      moreover from Cons.prems(1) xin have "su_created_at x \<le> su_created_at y" by simp
      ultimately show False by simp
    qed
    moreover have "find P ys = Some x"
      using Cons.IH Cons.prems xin by simp
    ultimately show ?thesis by simp
  qed
qed

lemma update_rejects_short_description:
  assumes "isNeedStatus (status_text status)"
    and "case Option.bind options so_description of
           None \<Rightarrow> True | Some t \<Rightarrow> length t < 5 \<or> length (js_trim t) < 5"
  shows "updateBarangayStatus c d b status u options =
           (Some ''Please provide a short description (at least 5 characters).'', d)"
proof (cases "Option.bind options so_description")
  case None
  with assms(1) show ?thesis
    by (simp add: updateBarangayStatus_def)
next
  case (Some t)
  with assms(2) have "length (js_trim t) < 5"
    using length_js_trim_le [of t] by auto
  with Some assms(1) show ?thesis
    by (simp add: updateBarangayStatus_def)
qed

lemma status_insert_allowed:
  assumes "auth_uid c = Some u"
    and "(is_true (current_user_is_lgu_type c d) \<and>
          is_true (current_user_can_access_barangay c d (Some b))) \<or>
         is_true (sql_in (current_user_role c d) [admin, super_admin])"
    and "su_barangay_id row = b" and "su_updated_by row = u"
  shows "is_true (barangay_status_insert_lgu c d row) \<or>
         is_true (barangay_status_insert_admin c d row)"
  using assms
  by (auto simp: barangay_status_insert_lgu_def barangay_status_insert_admin_def is_true_def
        sql_and_def sql_eq_def)

lemma role_gives_profile:
  assumes "auth_uid c = Some u"
    and "is_true (current_user_is_lgu_type c d) \<or>
         is_true (sql_in (current_user_role c d) [admin, super_admin])"
  shows "u \<in> pf_id ` set (profiles d)"
proof (cases "find (\<lambda>p. pf_id p = u) (profiles d)")
  case None
  with assms show ?thesis
    by (simp add: session_defs sql_defs)
next
  case (Some p)
  then have "p \<in> set (profiles d)" and "pf_id p = u"
    by (auto simp: find_Some_iff in_set_conv_nth)
  then show ?thesis by blast
qed

lemma update_accepts_description:
  assumes "isNeedStatus (status_text status)"
    and "Option.bind options so_description = Some t" and "5 \<le> length (js_trim t)"
    and "auth_uid c = Some u"
    and "(is_true (current_user_is_lgu_type c d) \<and>
          is_true (current_user_can_access_barangay c d (Some b))) \<or>
         is_true (sql_in (current_user_role c d) [admin, super_admin])"
    and "b \<in> b_id ` set (barangays d)"
    and "gen_random_uuid c 0 \<notin> su_id ` set (barangay_status_updates d)"
  shows "updateBarangayStatus c d b status u options =
           (None, d\<lparr> barangay_status_updates :=
                       barangay_status_updates d @ [updateBarangayStatus_payload c b status u options] \<rparr>)"
proof -
  let ?row = "updateBarangayStatus_payload c b status u options"
  have cols: "su_barangay_id ?row = b" "su_updated_by ?row = u" "su_id ?row = gen_random_uuid c 0"
    by (simp_all add: updateBarangayStatus_payload_def Let_def)
  have pol: "is_true (barangay_status_insert_lgu c d ?row) \<or>
             is_true (barangay_status_insert_admin c d ?row)"
    by (rule status_insert_allowed [OF assms(4,5) cols(1,2)])
  have prof: "u \<in> pf_id ` set (profiles d)"
    using role_gives_profile [OF assms(4)] assms(5) by blast
  have t: "t \<noteq> []" "\<not> length (js_trim t) < 5"
    using assms(3) length_js_trim_le [of t] by auto
  have "updateBarangayStatus c d b status u options = insert_barangay_status_update c d ?row"
    using assms(1,2) t by (simp add: updateBarangayStatus_def)
  also have "\<dots> = (None, d\<lparr> barangay_status_updates := barangay_status_updates d @ [?row] \<rparr>)"
    using pol prof assms(6,7) by (simp add: insert_barangay_status_update_def cols)
  finally show ?thesis .
qed

lemma inserted_row_is_latest:
  assumes "status_rows_answer (d\<lparr> barangay_status_updates := barangay_status_updates d @ [row] \<rparr>)
             barangayIds rows"
    and "su_barangay_id row \<in> set barangayIds"
    and "\<forall>s \<in> set (barangay_status_updates d).
           su_barangay_id s = su_barangay_id row \<longrightarrow> su_created_at s < su_created_at row"
  shows "latestByBarangay rows (su_barangay_id row) = Some row"
proof -
  let ?d' = "d\<lparr> barangay_status_updates := barangay_status_updates d @ [row] \<rparr>"
  have eq: "mset rows =
      mset (filter (\<lambda>s. su_barangay_id s \<in> set barangayIds) (barangay_status_updates ?d'))"
    using assms(1) unfolding status_rows_answer_def by (rule conjunct1)
  have "set rows =
      set (filter (\<lambda>s. su_barangay_id s \<in> set barangayIds) (barangay_status_updates ?d'))"
    by (rule mset_eq_setD [OF eq])
  then have mem: "set rows =
      {s \<in> set (barangay_status_updates d). su_barangay_id s \<in> set barangayIds} \<union> {row}"
    using assms(2) by auto
  have srt: "sorted_wrt (\<lambda>s t. su_created_at t \<le> su_created_at s) rows"
    using assms(1) unfolding status_rows_answer_def by (rule conjunct2)
  have "find (\<lambda>s. su_barangay_id s = su_barangay_id row) rows = Some row"
  proof (rule find_latest [OF srt])
    show "row \<in> set rows" using mem by simp
    show "su_barangay_id row = su_barangay_id row" by simp
    show "\<forall>s \<in> set rows. su_barangay_id s = su_barangay_id row \<and> s \<noteq> row \<longrightarrow>
            su_created_at s < su_created_at row"
      using mem assms(3) by auto
  qed
  then show ?thesis
    by (simp add: latestByBarangay_find)
qed

lemma fetch_shows_latest:
  assumes "latestByBarangay rows b = Some row"
    and "w \<in> set (fetchBarangaysWithStatus d rows)" and "bws_id w = b"
  shows "bws_status w = su_status row \<and> bws_statusUpdateId w = Some (su_id row)"
proof -
  from assms(2) obtain x where "x \<in> set (barangays d)" and
    w: "w = (let info = latestByBarangay rows (b_id x) in
              \<lparr> bws_id = b_id x, bws_name = b_name x,
                bws_status = (case info of None \<Rightarrow> normal | Some s \<Rightarrow> su_status s),
                bws_statusUpdatedAt = map_option su_created_at info,
                bws_statusDescription = Option.bind info su_description,
                bws_statusUpdateId = map_option su_id info \<rparr>)"
    by (auto simp: fetchBarangaysWithStatus_def)
  from w assms(3) have "b_id x = b"
    by (simp add: Let_def)
  with w assms(1) show ?thesis
    by (simp add: Let_def)
qed

text \<open>
  C8 (as amended).  For a status of the need set, \<open>updateBarangayStatus\<close> fails, writing
  nothing, when the description is absent, empty, shorter than 5 characters, or shorter than
  5 characters once surrounding white space is trimmed.  With a description of at least 5
  characters after trimming, and a caller the store admits (the session's user, an LGU-type
  responder with access to the barangay or an admin, for an existing barangay), it succeeds
  and appends the row with that status and the trimmed description.  If the barangay's
  earlier rows are older than the new one, the new row is the first of the barangay in every
  answer to the \<open>ORDER BY created_at DESC\<close> query, hence the barangay's current status.
\<close>

theorem need_status_description_gate:
  "(isNeedStatus (status_text status) \<and>
    (case Option.bind options so_description of
       None \<Rightarrow> True | Some t \<Rightarrow> length t < 5 \<or> length (js_trim t) < 5) \<longrightarrow>
      updateBarangayStatus c d b status u options =
        (Some ''Please provide a short description (at least 5 characters).'', d))
   \<and>
   (isNeedStatus (status_text status) \<and>
    Option.bind options so_description = Some t \<and> 5 \<le> length (js_trim t) \<and>
    auth_uid c = Some u \<and>
    ((is_true (current_user_is_lgu_type c d) \<and>
      is_true (current_user_can_access_barangay c d (Some b))) \<or>
     is_true (sql_in (current_user_role c d) [admin, super_admin])) \<and>
    b \<in> b_id ` set (barangays d) \<and>
    gen_random_uuid c 0 \<notin> su_id ` set (barangay_status_updates d) \<longrightarrow>
      updateBarangayStatus c d b status u options =
        (None, d\<lparr> barangay_status_updates :=
                    barangay_status_updates d @ [updateBarangayStatus_payload c b status u options] \<rparr>) \<and>
      su_status (updateBarangayStatus_payload c b status u options) = status \<and>
      su_description (updateBarangayStatus_payload c b status u options) = Some (js_trim t) \<and>
      ((\<forall>s \<in> set (barangay_status_updates d).
          su_barangay_id s = b \<longrightarrow> su_created_at s < now c) \<and>
       status_rows_answer (snd (updateBarangayStatus c d b status u options)) barangayIds rows \<and>
       b \<in> set barangayIds \<longrightarrow>
         latestByBarangay rows b = Some (updateBarangayStatus_payload c b status u options) \<and>
         (\<forall>w \<in> set (fetchBarangaysWithStatus (snd (updateBarangayStatus c d b status u options)) rows).
            bws_id w = b \<longrightarrow> bws_status w = status)))"
proof (intro conjI impI)
  assume "isNeedStatus (status_text status) \<and>
    (case Option.bind options so_description of
       None \<Rightarrow> True | Some t \<Rightarrow> length t < 5 \<or> length (js_trim t) < 5)"
  then show "updateBarangayStatus c d b status u options =
        (Some ''Please provide a short description (at least 5 characters).'', d)"
    using update_rejects_short_description by blast
next
  let ?row = "updateBarangayStatus_payload c b status u options"
  assume h: "isNeedStatus (status_text status) \<and>
    Option.bind options so_description = Some t \<and> 5 \<le> length (js_trim t) \<and>
    auth_uid c = Some u \<and>
    ((is_true (current_user_is_lgu_type c d) \<and>
      is_true (current_user_can_access_barangay c d (Some b))) \<or>
     is_true (sql_in (current_user_role c d) [admin, super_admin])) \<and>
    b \<in> b_id ` set (barangays d) \<and>
    gen_random_uuid c 0 \<notin> su_id ` set (barangay_status_updates d)"
  then have ok: "updateBarangayStatus c d b status u options =
        (None, d\<lparr> barangay_status_updates := barangay_status_updates d @ [?row] \<rparr>)"
    using update_accepts_description [of status options t c u d b] by blast
  then show "updateBarangayStatus c d b status u options =
        (None, d\<lparr> barangay_status_updates := barangay_status_updates d @ [?row] \<rparr>)" .
  show st: "su_status ?row = status"
    by (simp add: updateBarangayStatus_payload_def Let_def)
  from h show "su_description ?row = Some (js_trim t)"
    by (simp add: updateBarangayStatus_payload_def Let_def)
  have cols: "su_barangay_id ?row = b" "su_created_at ?row = now c"
    by (simp_all add: updateBarangayStatus_payload_def Let_def)
  assume a: "(\<forall>s \<in> set (barangay_status_updates d).
          su_barangay_id s = b \<longrightarrow> su_created_at s < now c) \<and>
       status_rows_answer (snd (updateBarangayStatus c d b status u options)) barangayIds rows \<and>
       b \<in> set barangayIds"
  have latest: "latestByBarangay rows (su_barangay_id ?row) = Some ?row"
  proof (rule inserted_row_is_latest)
    show "status_rows_answer (d\<lparr> barangay_status_updates := barangay_status_updates d @ [?row] \<rparr>)
            barangayIds rows"
      using a ok by simp
    show "su_barangay_id ?row \<in> set barangayIds"
      using a cols by simp
    show "\<forall>s \<in> set (barangay_status_updates d).
            su_barangay_id s = su_barangay_id ?row \<longrightarrow> su_created_at s < su_created_at ?row"
      using a cols by simp
  qed
  then show l: "latestByBarangay rows b = Some ?row"
    using cols by simp
  show "\<forall>w \<in> set (fetchBarangaysWithStatus (snd (updateBarangayStatus c d b status u options)) rows).
          bws_id w = b \<longrightarrow> bws_status w = status"
    using fetch_shows_latest [OF l] st by metis
qed

theorem need_status_description_gate_witness:
  "updateBarangayStatus (ex_ctx 4 9) ex_db 20 active_disaster 4 (ex_options '''') =
     (Some ''Please provide a short description (at least 5 characters).'', ex_db) \<and>
   fst (updateBarangayStatus (ex_ctx 4 9) ex_db 20 active_disaster 4
          (ex_options ''Severe flooding on Main St'')) = None \<and>
   latestByBarangay
     [updateBarangayStatus_payload (ex_ctx 4 9) 20 active_disaster 4 (ex_options ''Severe flooding on Main St'')] 20 =
     Some (updateBarangayStatus_payload (ex_ctx 4 9) 20 active_disaster 4 (ex_options ''Severe flooding on Main St''))"
proof -
  let ?c = "ex_ctx 4 9"
  let ?t = "''Severe flooding on Main St''"
  let ?row = "updateBarangayStatus_payload ?c 20 active_disaster 4 (ex_options ?t)"
  have need: "isNeedStatus (status_text active_disaster)"
    by (simp add: status_defs)
  have short: "case Option.bind (ex_options '''') so_description of
                 None \<Rightarrow> True | Some t \<Rightarrow> length t < 5 \<or> length (js_trim t) < 5"
    by (simp add: ex_options_def)
  have desc: "Option.bind (ex_options ?t) so_description = Some ?t"
    by (simp add: ex_options_def)
  have long: "5 \<le> length (js_trim ?t)"
    by (simp add: string_defs)
  have auth: "auth_uid ?c = Some 4"
    by (simp add: ex_defs)
  have role: "is_true (current_user_is_lgu_type ?c ex_db) \<and>
              is_true (current_user_can_access_barangay ?c ex_db (Some 20))"
    by (simp add: session_defs sql_defs ex_defs)
  have keys: "20 \<in> b_id ` set (barangays ex_db)"
             "gen_random_uuid ?c 0 \<notin> su_id ` set (barangay_status_updates ex_db)"
    by (simp_all add: ex_defs)
  have old: "\<forall>s \<in> set (barangay_status_updates ex_db). su_barangay_id s = 20 \<longrightarrow> su_created_at s < now ?c"
    by (simp add: ex_defs)
  note T1 = need_status_description_gate
              [where status = active_disaster and options = "ex_options ''''" and c = ?c
                 and d = ex_db and b = 20 and u = 4]
  note T2 = need_status_description_gate
              [where status = active_disaster and options = "ex_options ?t" and c = ?c
                 and d = ex_db and b = 20 and u = 4 and t = ?t
                 and barangayIds = "[20, 21, 30]" and rows = "[?row]"]
  from T1 need short
  have first: "updateBarangayStatus ?c ex_db 20 active_disaster 4 (ex_options '''') =
     (Some ''Please provide a short description (at least 5 characters).'', ex_db)"
    by blast
  from T2 need desc long auth role keys
  have ok: "updateBarangayStatus ?c ex_db 20 active_disaster 4 (ex_options ?t) =
        (None, ex_db\<lparr> barangay_status_updates := barangay_status_updates ex_db @ [?row] \<rparr>)"
    by blast
  have ans: "status_rows_answer
               (snd (updateBarangayStatus ?c ex_db 20 active_disaster 4 (ex_options ?t)))
               [20, 21, 30] [?row]"
  proof -
    have e: "barangay_status_updates ex_db = []"
      by (simp add: ex_db_def)
    have b: "su_barangay_id ?row = 20"
      by (simp add: updateBarangayStatus_payload_def Let_def)
    show ?thesis
      unfolding ok status_rows_answer_def by (simp add: e b)
  qed
  from T2 need desc long auth role keys old ans
  have "latestByBarangay [?row] 20 = Some ?row"
    by simp
  with first ok show ?thesis by simp
qed

text \<open>
  The claim as written fails: the description \<open>ab\<close> followed by three spaces has 5 characters,
  and the update of barangay 20 to "active disaster" by its responder is refused.
\<close>

theorem padded_description_refused_counterexample:
  "length ''ab   '' = 5 \<and>
   isNeedStatus (status_text active_disaster) \<and>
   updateBarangayStatus (ex_ctx 4 9) ex_db 20 active_disaster 4 (ex_options ''ab   '') =
     (Some ''Please provide a short description (at least 5 characters).'', ex_db) \<and>
   fst (updateBarangayStatus (ex_ctx 4 9) ex_db 20 active_disaster 4 (ex_options ''abcde'')) = None"
  by (simp add: status_defs sql_defs session_defs ex_defs string_defs Let_def)


section \<open>Submitting a boundary request\<close>

lemma dropWhile_dropWhile_weaker:
  assumes "\<And>x. P x \<Longrightarrow> Q x"
  shows "dropWhile P (dropWhile Q xs) = dropWhile Q xs"
  using assms by (induction xs) auto

lemma sql_trim_js_trim: "sql_trim (js_trim s) = js_trim s"
proof -
  have sub: "\<And>x. x = CHR 0x20 \<Longrightarrow> js_whitespace x"
    by (simp add: js_whitespace_def)
  let ?S = "\<lambda>ch. ch = CHR 0x20"
  let ?t = "js_trim s"
  have tail: "dropWhile ?S (rev ?t) = rev ?t"
    unfolding js_trim_def rev_rev_ident
    by (rule dropWhile_dropWhile_weaker) (rule sub)
  have front: "dropWhile ?S ?t = ?t"
  proof (cases "dropWhile js_whitespace s")
    case Nil
    show ?thesis unfolding js_trim_def Nil by simp
  next
    case (Cons h r)
    then have nw: "\<not> js_whitespace h"
      by (metis hd_dropWhile list.sel(1) list.distinct(1))
    then have "h \<noteq> CHR 0x20" using sub by blast
    moreover have "?t = h # rev (dropWhile js_whitespace (rev r))"
      unfolding js_trim_def Cons using nw by (simp add: dropWhile_append)
    ultimately show ?thesis by simp
  qed
  show ?thesis
    unfolding sql_trim_def front tail by simp
qed

lemma insert_request_outcome:
  "insert_barangay_boundary_request c d u m row = (Raised, d) \<or>
   insert_barangay_boundary_request c d u m row =
     (Returned (Some (rq_id row)),
      d\<lparr> barangay_boundary_requests := barangay_boundary_requests d @ [row] \<rparr>)"
  by (simp add: insert_barangay_boundary_request_def)

lemma submit_rpc_outcome:
  "submit_barangay_boundary_request c d m b n g e p ds = (Raised, d) \<or>
   submit_barangay_boundary_request c d m b n g e p ds = (Returned None, d) \<or>
   (is_true (sql_in (current_user_role c d) [lgu_responder, barangay_responder, municipal_responder]) \<and>
    (\<exists>name. n = Some name \<and> sql_trim name \<noteq> []) \<and> g \<noteq> None \<and>
    (\<exists>em. e = Some em \<and> sql_trim em \<noteq> []) \<and>
    (\<exists>ph. p = Some ph \<and> sql_trim ph \<noteq> []) \<and>
    submit_barangay_boundary_request c d m b n g e p ds =
      insert_barangay_boundary_request c d (auth_uid c) m
          (boundary_request_row c
             (case auth_uid c of None \<Rightarrow> nil_uuid | Some u \<Rightarrow> u)
             (case m of None \<Rightarrow> nil_uuid | Some m \<Rightarrow> m)
             b
             (case n of None \<Rightarrow> [] | Some name \<Rightarrow> name)
             (case g of None \<Rightarrow> [] | Some geo \<Rightarrow> geo)
             e p ds))"
proof (cases "is_true (sql_not (sql_in (current_user_role c d)
                     [lgu_responder, barangay_responder, municipal_responder]))")
  case True
  then show ?thesis by (simp add: submit_barangay_boundary_request_def)
next
  case g1: False
  show ?thesis
  proof (cases "n = None \<or> map_option sql_trim n = Some [] \<or> g = None \<or>
                e = None \<or> map_option sql_trim e = Some [] \<or>
                p = None \<or> map_option sql_trim p = Some []")
    case True
    then show ?thesis using g1 by (auto simp add: submit_barangay_boundary_request_def)
  next
    case False
    then have guards: "n \<noteq> None" "map_option sql_trim n \<noteq> Some []" "g \<noteq> None"
        "e \<noteq> None" "map_option sql_trim e \<noteq> Some []" "p \<noteq> None" "map_option sql_trim p \<noteq> Some []"
      by simp_all
    have eq: "submit_barangay_boundary_request c d m b n g e p ds =
      insert_barangay_boundary_request c d (auth_uid c) m
          (boundary_request_row c
             (case auth_uid c of None \<Rightarrow> nil_uuid | Some u \<Rightarrow> u)
             (case m of None \<Rightarrow> nil_uuid | Some m \<Rightarrow> m)
             b
             (case n of None \<Rightarrow> [] | Some name \<Rightarrow> name)
             (case g of None \<Rightarrow> [] | Some geo \<Rightarrow> geo)
             e p ds)"
    proof -
      from False have c2: "\<not> (n = None \<or> map_option sql_trim n = Some [])"
        and c3: "\<not> g = None"
        and c4: "\<not> (e = None \<or> map_option sql_trim e = Some [])"
        and c5: "\<not> (p = None \<or> map_option sql_trim p = Some [])"
        by simp_all
      show ?thesis
        unfolding submit_barangay_boundary_request_def
        by (simp only: g1 c2 c3 c4 c5 if_False)
    qed
    let ?ins = "insert_barangay_boundary_request c d (auth_uid c) m
          (boundary_request_row c
             (case auth_uid c of None \<Rightarrow> nil_uuid | Some u \<Rightarrow> u)
             (case m of None \<Rightarrow> nil_uuid | Some m \<Rightarrow> m)
             b
             (case n of None \<Rightarrow> [] | Some name \<Rightarrow> name)
             (case g of None \<Rightarrow> [] | Some geo \<Rightarrow> geo)
             e p ds)"
    show ?thesis
    proof (cases "fst ?ins = Raised")
      case True
      then have "?ins = (Raised, d)"
        using insert_request_outcome by (metis fst_conv rpc.distinct(1))
      with eq show ?thesis by simp
    next
      case nr: False
      have role: "is_true (sql_in (current_user_role c d) [lgu_responder, barangay_responder, municipal_responder])"
      proof (cases "current_user_role c d")
        case None
        then have "auth_uid c = None \<or> \<not> references (auth_uid c) (map pf_id (profiles d))"
          by (auto simp: current_user_role_def current_profile_def references_def find_None_iff
                   split: option.splits)
        then have "fst ?ins = Raised"
          by (auto simp: insert_barangay_boundary_request_def)
        with nr show ?thesis by simp
      next
        case (Some r)
        with g1 show ?thesis by (simp add: sql_defs)
      qed
      from guards role eq show ?thesis by auto
    qed
  qed
qed

lemma submitBoundaryRequest_outcome:
  "submitBoundaryRequest c d m b name geo email phone desc = (None, d) \<or>
   (is_true (sql_in (current_user_role c d)
       [lgu_responder, barangay_responder, municipal_responder]) \<and>
    js_trim name \<noteq> [] \<and> geo \<noteq> None \<and> js_trim email \<noteq> [] \<and> js_trim phone \<noteq> [] \<and>
    submitBoundaryRequest c d m b name geo email phone desc =
      (Some (gen_random_uuid c 0),
       d\<lparr> barangay_boundary_requests :=
            barangay_boundary_requests d @
              [boundary_request_row c
                 (case auth_uid c of None \<Rightarrow> nil_uuid | Some u \<Rightarrow> u) m
                 (Some (case b of None \<Rightarrow> nil_uuid | Some x \<Rightarrow> x))
                 (js_trim name) (case geo of None \<Rightarrow> [] | Some g \<Rightarrow> g)
                 (Some (js_trim email)) (Some (js_trim phone)) (map_option js_trim desc)] \<rparr>))"
proof -
  let ?b = "Some (case b of None \<Rightarrow> nil_uuid | Some x \<Rightarrow> x)"
  let ?rpc = "submit_barangay_boundary_request c d (Some m) ?b (Some (js_trim name)) geo
                (Some (js_trim email)) (Some (js_trim phone)) (map_option js_trim desc)"
  let ?row = "boundary_request_row c (case auth_uid c of None \<Rightarrow> nil_uuid | Some u \<Rightarrow> u) m ?b
                (js_trim name) (case geo of None \<Rightarrow> [] | Some g \<Rightarrow> g)
                (Some (js_trim email)) (Some (js_trim phone)) (map_option js_trim desc)"
  have ts: "submitBoundaryRequest c d m b name geo email phone desc =
      (case ?rpc of (Raised, d') \<Rightarrow> (None, d') | (Returned None, d') \<Rightarrow> (None, d')
       | (Returned (Some v_id), d') \<Rightarrow> (Some v_id, d'))"
    by (simp add: submitBoundaryRequest_def)
  consider (raised) "?rpc = (Raised, d)" | (null) "?rpc = (Returned None, d)"
    | (ins) "is_true (sql_in (current_user_role c d)
                [lgu_responder, barangay_responder, municipal_responder])"
        "sql_trim (js_trim name) \<noteq> []" "geo \<noteq> None" "sql_trim (js_trim email) \<noteq> []"
        "sql_trim (js_trim phone) \<noteq> []"
        "?rpc = insert_barangay_boundary_request c d (auth_uid c) (Some m) ?row"
    using submit_rpc_outcome [of c d "Some m" ?b "Some (js_trim name)" geo "Some (js_trim email)"
            "Some (js_trim phone)" "map_option js_trim desc"]
    by auto
  then show ?thesis
  proof cases
    case raised
    then show ?thesis by (simp add: ts)
  next
    case null
    then show ?thesis by (simp add: ts)
  next
    case ins
    from insert_request_outcome [of c d "auth_uid c" "Some m" ?row]
    show ?thesis
    proof
      assume "insert_barangay_boundary_request c d (auth_uid c) (Some m) ?row = (Raised, d)"
      with ins(6) show ?thesis by (simp add: ts)
    next
      assume "insert_barangay_boundary_request c d (auth_uid c) (Some m) ?row =
        (Returned (Some (rq_id ?row)),
         d\<lparr> barangay_boundary_requests := barangay_boundary_requests d @ [?row] \<rparr>)"
      with ins(6) have "submitBoundaryRequest c d m b name geo email phone desc =
        (Some (rq_id ?row), d\<lparr> barangay_boundary_requests := barangay_boundary_requests d @ [?row] \<rparr>)"
        by (simp add: ts)
      moreover have "rq_id ?row = gen_random_uuid c 0"
        by (simp add: boundary_request_row_def)
      ultimately show ?thesis
        using ins(1-5) by (simp add: sql_trim_js_trim)
    qed
  qed
qed

text \<open>
  \<open>email_pattern\<close> is the regular expression read literally: three non-empty runs of
  characters other than white space and \<open>@\<close>, separated by an \<open>@\<close> and a dot.
\<close>

lemma email_pattern_if:
  assumes "s = a @ CHR ''@'' # b @ CHR ''.'' # c" and "a \<noteq> []" and "b \<noteq> []" and "c \<noteq> []"
    and "list_all email_atom a" and "list_all email_atom b" and "list_all email_atom c"
  shows "email_pattern s"
proof -
  have na: "\<forall>x \<in> set a. x \<noteq> CHR ''@''"
    using assms(5) by (auto simp: list_all_iff email_atom_def)
  have tw: "takeWhile (\<lambda>ch. ch \<noteq> CHR ''@'') s = a"
    unfolding assms(1) using na by (simp add: takeWhile_append)
  have dw: "dropWhile (\<lambda>ch. ch \<noteq> CHR ''@'') s = CHR ''@'' # b @ CHR ''.'' # c"
    unfolding assms(1) using na by (simp add: dropWhile_append)
  have dot: "email_atom CHR ''.''"
    by (simp add: email_atom_def js_whitespace_def)
  have dom: "list_all email_atom (b @ CHR ''.'' # c)"
    using assms(6,7) dot by simp
  have "tl (b @ CHR ''.'' # c) = tl b @ CHR ''.'' # c"
    using assms(3) by simp
  moreover have "butlast (tl b @ CHR ''.'' # c) = tl b @ CHR ''.'' # butlast c"
    using assms(4) by (simp add: butlast_append)
  ultimately have mid: "CHR ''.'' \<in> set (butlast (tl (b @ CHR ''.'' # c)))"
    by simp
  show ?thesis
    unfolding email_pattern_def Let_def tw dw using assms(2,5) dom mid by simp
qed

lemma email_pattern_only_if:
  assumes "email_pattern s"
  shows "\<exists>a b c. s = a @ CHR ''@'' # b @ CHR ''.'' # c \<and> a \<noteq> [] \<and> b \<noteq> [] \<and> c \<noteq> [] \<and>
           list_all email_atom a \<and> list_all email_atom b \<and> list_all email_atom c"
proof -
  let ?a = "takeWhile (\<lambda>ch. ch \<noteq> CHR ''@'') s"
  let ?r = "dropWhile (\<lambda>ch. ch \<noteq> CHR ''@'') s"
  from assms obtain h dm where r: "?r = h # dm" and a: "?a \<noteq> []" "list_all email_atom ?a"
    and dm: "list_all email_atom dm" and mid: "CHR ''.'' \<in> set (butlast (tl dm))"
    by (auto simp: email_pattern_def Let_def split: list.splits)
  have h: "h = CHR ''@''"
    using hd_dropWhile [of "\<lambda>ch. ch \<noteq> CHR ''@''" s] r by simp
  have s: "s = ?a @ CHR ''@'' # dm"
    using takeWhile_dropWhile_id [of "\<lambda>ch. ch \<noteq> CHR ''@''" s] r h by simp
  from mid obtain p q where pq: "butlast (tl dm) = p @ CHR ''.'' # q"
    by (meson split_list)
  then have ne: "tl dm \<noteq> []" by auto
  then have dmne: "dm \<noteq> []" by auto
  have "tl dm = butlast (tl dm) @ [last (tl dm)]"
    using ne by simp
  then have "dm = (hd dm # p) @ CHR ''.'' # (q @ [last (tl dm)])"
    using pq dmne by (metis append_Cons append_assoc list.collapse)
  then obtain b c where bc: "dm = b @ CHR ''.'' # c" "b \<noteq> []" "c \<noteq> []"
    by blast
  with dm have "list_all email_atom b" "list_all email_atom c"
    by simp_all
  with bc s a show ?thesis
    by blast
qed

lemma startDrawBoundary_passes:
  assumes "startDrawBoundary mun name email phone = None"
  shows "mun \<noteq> None \<and> js_trim name \<noteq> [] \<and> email_pattern (js_trim email) \<and>
         ph_phone_pattern (filter (\<lambda>ch. \<not> js_whitespace ch \<and> ch \<noteq> CHR ''-'') phone)"
  using assms by (simp add: startDrawBoundary_def split: if_splits)

text \<open>
  C9 (as amended).  \<open>submitBoundaryRequest\<close> creates a request, pending, only when the caller
  is an LGU-type responder, the geometry is non-null and the barangay name, contact email
  and contact phone are non-empty after trimming; otherwise it fails and the database is as
  before.  It does not look at the form of the email or the phone.  The well-formed email and
  the Philippine phone format are checks of the dashboard: \<open>startDrawBoundary\<close> starts the
  drawing of a new area, which ends in the submission, only when both patterns match.
\<close>

theorem boundary_request_needs_nonempty_contact:
  "(submitBoundaryRequest c d m b name geo email phone desc = (Some i, d') \<longrightarrow>
      is_true (sql_in (current_user_role c d)
        [lgu_responder, barangay_responder, municipal_responder]) \<and>
      js_trim name \<noteq> [] \<and> geo \<noteq> None \<and> js_trim email \<noteq> [] \<and> js_trim phone \<noteq> [] \<and>
      butlast (barangay_boundary_requests d') = barangay_boundary_requests d \<and>
      barangay_boundary_requests d' \<noteq> [] \<and>
      rq_id (last (barangay_boundary_requests d')) = i \<and>
      rq_status (last (barangay_boundary_requests d')) = rq_pending \<and>
      rq_contact_email (last (barangay_boundary_requests d')) = Some (js_trim email) \<and>
      rq_contact_phone (last (barangay_boundary_requests d')) = Some (js_trim phone))
   \<and>
   (fst (submitBoundaryRequest c d m b name geo email phone desc) = None \<longrightarrow>
      snd (submitBoundaryRequest c d m b name geo email phone desc) = d)
   \<and>
   (startDrawBoundary selectedMunicipalityId newBarangayName boundaryContactEmail
      boundaryContactPhone = None \<longrightarrow>
      selectedMunicipalityId \<noteq> None \<and> js_trim newBarangayName \<noteq> [] \<and>
      email_pattern (js_trim boundaryContactEmail) \<and>
      ph_phone_pattern
        (filter (\<lambda>ch. \<not> js_whitespace ch \<and> ch \<noteq> CHR ''-'') boundaryContactPhone))"
proof (intro conjI impI)
  assume "startDrawBoundary selectedMunicipalityId newBarangayName boundaryContactEmail
      boundaryContactPhone = None"
  note g = startDrawBoundary_passes [OF this]
  from g show "selectedMunicipalityId \<noteq> None" by simp
  from g show "js_trim newBarangayName \<noteq> []" by simp
  from g show "email_pattern (js_trim boundaryContactEmail)" by simp
  from g show "ph_phone_pattern
        (filter (\<lambda>ch. \<not> js_whitespace ch \<and> ch \<noteq> CHR ''-'') boundaryContactPhone)" by simp
next
  assume "fst (submitBoundaryRequest c d m b name geo email phone desc) = None"
  then show "snd (submitBoundaryRequest c d m b name geo email phone desc) = d"
    using submitBoundaryRequest_outcome [of c d m b name geo email phone desc] by auto
next
  assume ok: "submitBoundaryRequest c d m b name geo email phone desc = (Some i, d')"
  let ?row = "boundary_request_row c (case auth_uid c of None \<Rightarrow> nil_uuid | Some u \<Rightarrow> u) m
                (Some (case b of None \<Rightarrow> nil_uuid | Some x \<Rightarrow> x))
                (js_trim name) (case geo of None \<Rightarrow> [] | Some g \<Rightarrow> g)
                (Some (js_trim email)) (Some (js_trim phone)) (map_option js_trim desc)"
  from ok submitBoundaryRequest_outcome [of c d m b name geo email phone desc]
  have g: "is_true (sql_in (current_user_role c d)
            [lgu_responder, barangay_responder, municipal_responder])"
      "js_trim name \<noteq> []" "geo \<noteq> None" "js_trim email \<noteq> []" "js_trim phone \<noteq> []"
    and i: "i = gen_random_uuid c 0"
    and d': "d' = d\<lparr> barangay_boundary_requests := barangay_boundary_requests d @ [?row] \<rparr>"
    by auto
  have row: "rq_id ?row = gen_random_uuid c 0" "rq_status ?row = rq_pending"
      "rq_contact_email ?row = Some (sql_trim (js_trim email))"
      "rq_contact_phone ?row = Some (sql_trim (js_trim phone))"
    by (simp_all add: boundary_request_row_def)
  from g show "is_true (sql_in (current_user_role c d)
        [lgu_responder, barangay_responder, municipal_responder])" by simp
  from g show "js_trim name \<noteq> []" by simp
  from g show "geo \<noteq> None" by simp
  from g show "js_trim email \<noteq> []" by simp
  from g show "js_trim phone \<noteq> []" by simp
  show "butlast (barangay_boundary_requests d') = barangay_boundary_requests d"
    unfolding d' by simp
  show "barangay_boundary_requests d' \<noteq> []"
    unfolding d' by simp
  show "rq_id (last (barangay_boundary_requests d')) = i"
    unfolding d' i by (simp add: row)
  show "rq_status (last (barangay_boundary_requests d')) = rq_pending"
    unfolding d' by (simp add: row)
  show "rq_contact_email (last (barangay_boundary_requests d')) = Some (js_trim email)"
    unfolding d' by (simp add: row sql_trim_js_trim)
  show "rq_contact_phone (last (barangay_boundary_requests d')) = Some (js_trim phone)"
    unfolding d' by (simp add: row sql_trim_js_trim)
qed

theorem boundary_request_needs_nonempty_contact_witness:
  "fst (submitBoundaryRequest (ex_ctx 2 4) ex_db 1 None ''Calajoan'' (Some ''{}'')
          ''lgu@example.ph'' ''09171234567'' None) = Some 400 \<and>
   rq_status (last (barangay_boundary_requests
     (snd (submitBoundaryRequest (ex_ctx 2 4) ex_db 1 None ''Calajoan'' (Some ''{}'')
             ''lgu@example.ph'' ''09171234567'' None)))) = rq_pending \<and>
   submitBoundaryRequest (ex_ctx 2 4) ex_db 1 None ''Calajoan'' (Some ''{}'') ''  ''
     ''09171234567'' None = (None, ex_db) \<and>
   startDrawBoundary (Some 1) ''Calajoan'' ''lgu@example.ph'' ''0917 123-4567'' = None \<and>
   email_pattern ''lgu@example.ph'' \<and> ph_phone_pattern ''09171234567''"
proof -
  let ?ok = "submitBoundaryRequest (ex_ctx 2 4) ex_db 1 None ''Calajoan'' (Some ''{}'')
               ''lgu@example.ph'' ''09171234567'' None"
  let ?bad = "submitBoundaryRequest (ex_ctx 2 4) ex_db 1 None ''Calajoan'' (Some ''{}'') ''  ''
                ''09171234567'' None"
  have a: "fst ?ok = Some 400"
    by (simp add: lifecycle_defs sql_defs session_defs ex_defs string_defs)
  then have a': "?ok = (Some 400, snd ?ok)"
    by (metis prod.collapse)
  have b: "fst ?bad = None"
    by (simp add: lifecycle_defs sql_defs session_defs ex_defs string_defs)
  have s: "startDrawBoundary (Some 1) ''Calajoan'' ''lgu@example.ph'' ''0917 123-4567'' = None"
    by (simp add: startDrawBoundary_def email_pattern_def email_atom_def ph_phone_pattern_def
          digit_def string_defs)
  have t: "js_trim ''lgu@example.ph'' = ''lgu@example.ph''"
          "filter (\<lambda>ch. \<not> js_whitespace ch \<and> ch \<noteq> CHR ''-'') ''0917 123-4567'' = ''09171234567''"
    by (simp_all add: string_defs)
  note T1 = boundary_request_needs_nonempty_contact
              [where c = "ex_ctx 2 4" and d = ex_db and m = 1 and b = None and name = "''Calajoan''"
                 and geo = "Some ''{}''" and email = "''lgu@example.ph''"
                 and phone = "''09171234567''" and desc = None and i = 400 and d' = "snd ?ok"
                 and selectedMunicipalityId = "Some 1" and newBarangayName = "''Calajoan''"
                 and boundaryContactEmail = "''lgu@example.ph''"
                 and boundaryContactPhone = "''0917 123-4567''"]
  note T2 = boundary_request_needs_nonempty_contact
              [where c = "ex_ctx 2 4" and d = ex_db and m = 1 and b = None and name = "''Calajoan''"
                 and geo = "Some ''{}''" and email = "''  ''"
                 and phone = "''09171234567''" and desc = None]
  from T1 a' have p: "rq_status (last (barangay_boundary_requests (snd ?ok))) = rq_pending"
    by blast
  from T1 s t have pat: "email_pattern ''lgu@example.ph'' \<and> ph_phone_pattern ''09171234567''"
    by simp
  from T2 b have "snd ?bad = ex_db"
    by blast
  with b have bad: "?bad = (None, ex_db)"
    by (metis prod.collapse)
  from a p bad s pat show ?thesis
    by simp
qed

text \<open>
  The claim as written fails: with the contact email \<open>not-an-email\<close> and the contact phone
  \<open>12345\<close>, neither of which matches its pattern, the submission of actor 2 succeeds and
  stores a pending request with these contact data.
\<close>

theorem malformed_contact_accepted_counterexample:
  "\<not> email_pattern ''not-an-email'' \<and> \<not> ph_phone_pattern ''12345'' \<and>
   startDrawBoundary (Some 1) ''Calajoan'' ''not-an-email'' ''12345'' =
     Some ''Enter a valid email address.'' \<and>
   fst (submitBoundaryRequest (ex_ctx 2 4) ex_db 1 None ''Calajoan'' (Some ''{}'')
          ''not-an-email'' ''12345'' None) = Some 400 \<and>
   map rq_status (barangay_boundary_requests
     (snd (submitBoundaryRequest (ex_ctx 2 4) ex_db 1 None ''Calajoan'' (Some ''{}'')
             ''not-an-email'' ''12345'' None))) =
     [rq_pending, rq_rejected, rq_pending, rq_pending] \<and>
   map rq_contact_email (barangay_boundary_requests
     (snd (submitBoundaryRequest (ex_ctx 2 4) ex_db 1 None ''Calajoan'' (Some ''{}'')
             ''not-an-email'' ''12345'' None))) =
     [Some ''lgu@example.ph'', Some ''lgu@example.ph'', Some ''lgu@example.ph'',
      Some ''not-an-email'']"
  by (simp add: lifecycle_defs sql_defs session_defs ex_defs string_defs startDrawBoundary_def
        email_pattern_def email_atom_def ph_phone_pattern_def digit_def)


end
